theory Spec2Isabelle
  imports Complex_Main "HOL-Library.Sublist"
begin

section \<open>JavaScript values of request fields and document paths\<close>

text \<open>
  A request field holds \<open>undefined\<close> (the field is absent), \<open>null\<close>, a string,
  or an array of strings (a repeated form field). Strings are byte lists in UTF-8; the
  non-ASCII symbols of the source's messages are written as their bytes. Numbers and
  nested objects of a JSON body are not modelled as request values.
\<close>

datatype jsval = Undefined | Null | Str string | Arr "string list"

text \<open>Truthiness, as used by \<open>a || b\<close>, \<open>if (x)\<close> and \<open>x ? a : b\<close>.\<close>

fun truthy :: "jsval \<Rightarrow> bool" where
  "truthy Undefined = False"
| "truthy Null = False"
| "truthy (Str s) = (s \<noteq> [])"
| "truthy (Arr xs) = True"

definition or_else :: "jsval \<Rightarrow> jsval \<Rightarrow> jsval" where
  "or_else a b = (if truthy a then a else b)"

fun join_with :: "string \<Rightarrow> string list \<Rightarrow> string" where
  "join_with sep [] = []"
| "join_with sep [x] = x"
| "join_with sep (x # y # ys) = x @ sep @ join_with sep (y # ys)"

text \<open>String conversion, as done by a template literal and by \<open>+\<close> with a string.\<close>

fun to_string :: "jsval \<Rightarrow> string" where
  "to_string Undefined = ''undefined''"
| "to_string Null = ''null''"
| "to_string (Str s) = s"
| "to_string (Arr xs) = join_with '','' xs"

text \<open>\<open>String.prototype.toUpperCase\<close>, on the ASCII letters.\<close>

definition upper_char :: "char \<Rightarrow> char" where
  "upper_char c =
     (if 97 \<le> (of_char c :: nat) \<and> (of_char c :: nat) \<le> 122
      then char_of ((of_char c :: nat) - 32) else c)"

definition toUpperCase :: "string \<Rightarrow> string" where
  "toUpperCase s = map upper_char s"

text \<open>Decimal rendering of a non-negative integer, as \<open>"order_" + Date.now()\<close> does.\<close>

definition digit_char :: "nat \<Rightarrow> char" where
  "digit_char d = ''0123456789'' ! d"

fun show_nat :: "nat \<Rightarrow> string" where
  "show_nat n = (if n < 10 then [digit_char n] else show_nat (n div 10) @ [digit_char (n mod 10)])"

declare show_nat.simps [simp del]

text \<open>
  A JavaScript number other than NaN, as a document path of schema type \<open>Number\<close>
  holds it: a finite double by its exact value (negative zero is not told from zero), or
  an infinity. The path itself is absent, \<open>null\<close> or a number.
\<close>

datatype number = Finite rat | PosInfinity | NegInfinity

datatype numval = NumUndefined | NumNull | Num number

text \<open>
  \<open>String.prototype.trim\<close>: white space and line terminators are removed from both
  ends. \<open>white_space\<close> lists the UTF-8 encodings of the code points concerned
  (TAB, LF, VT, FF, CR, SP, U+00A0, U+1680, U+2000 to U+200A, U+2028, U+2029, U+202F,
  U+205F, U+3000, U+FEFF).
\<close>

definition white_space :: "string list" where
  "white_space =
     [[CHR 0x09], [CHR 0x0A], [CHR 0x0B], [CHR 0x0C], [CHR 0x0D], [CHR 0x20],
      [CHR 0xC2, CHR 0xA0], [CHR 0xE1, CHR 0x9A, CHR 0x80],
      [CHR 0xE2, CHR 0x80, CHR 0x80], [CHR 0xE2, CHR 0x80, CHR 0x81],
      [CHR 0xE2, CHR 0x80, CHR 0x82], [CHR 0xE2, CHR 0x80, CHR 0x83],
      [CHR 0xE2, CHR 0x80, CHR 0x84], [CHR 0xE2, CHR 0x80, CHR 0x85],
      [CHR 0xE2, CHR 0x80, CHR 0x86], [CHR 0xE2, CHR 0x80, CHR 0x87],
      [CHR 0xE2, CHR 0x80, CHR 0x88], [CHR 0xE2, CHR 0x80, CHR 0x89],
      [CHR 0xE2, CHR 0x80, CHR 0x8A], [CHR 0xE2, CHR 0x80, CHR 0xA8],
      [CHR 0xE2, CHR 0x80, CHR 0xA9], [CHR 0xE2, CHR 0x80, CHR 0xAF],
      [CHR 0xE2, CHR 0x81, CHR 0x9F], [CHR 0xE3, CHR 0x80, CHR 0x80],
      [CHR 0xEF, CHR 0xBB, CHR 0xBF]]"

definition white_space_length :: "string list \<Rightarrow> string \<Rightarrow> nat" where
  "white_space_length ps s = (case find (\<lambda>p. prefix p s) ps of None \<Rightarrow> 0 | Some p \<Rightarrow> length p)"

text \<open>At most \<open>n\<close> leading white-space code points are removed; the length of the
  string is always enough.\<close>

fun strip_start :: "string list \<Rightarrow> nat \<Rightarrow> string \<Rightarrow> string" where
  "strip_start ps 0 s = s"
| "strip_start ps (Suc n) s =
     (if white_space_length ps s = 0 then s
      else strip_start ps n (drop (white_space_length ps s) s))"

definition trimStart :: "string \<Rightarrow> string" where
  "trimStart s = strip_start white_space (length s) s"

definition trimEnd :: "string \<Rightarrow> string" where
  "trimEnd s = rev (strip_start (map rev white_space) (length s) (rev s))"

definition trim :: "string \<Rightarrow> string" where
  "trim s = trimEnd (trimStart s)"

section \<open>POSIX \<open>path.join\<close>\<close>

text \<open>
  \<open>path.join\<close> of the Node.js standard library, POSIX flavour: the non-empty
  arguments are joined with \<open>/\<close> and the result is normalised. Normalisation drops
  empty and \<open>.\<close> segments, and a \<open>..\<close> segment removes the segment before it
  (or is kept, in a relative path, when there is none to remove).
\<close>

fun split_sep :: "string \<Rightarrow> string list" where
  "split_sep [] = [[]]"
| "split_sep (c # cs) =
     (if c = CHR ''/'' then [] # split_sep cs
      else (case split_sep cs of [] \<Rightarrow> [[c]] | s # ss \<Rightarrow> (c # s) # ss))"

fun normalizeString :: "bool \<Rightarrow> string list \<Rightarrow> string list \<Rightarrow> string list" where
  "normalizeString allowAboveRoot res [] = res"
| "normalizeString allowAboveRoot res (seg # segs) =
     (if seg = [] \<or> seg = ''.'' then normalizeString allowAboveRoot res segs
      else if seg = ''..'' then
        (if res \<noteq> [] \<and> last res \<noteq> ''..''
         then normalizeString allowAboveRoot (butlast res) segs
         else if allowAboveRoot then normalizeString allowAboveRoot (res @ [''..'']) segs
         else normalizeString allowAboveRoot res segs)
      else normalizeString allowAboveRoot (res @ [seg]) segs)"

definition normalize :: "string \<Rightarrow> string" where
  "normalize p =
     (if p = [] then ''.''
      else
        (let isAbsolute = (hd p = CHR ''/'');
             trailingSeparator = (last p = CHR ''/'');
             q = join_with ''/'' (normalizeString (\<not> isAbsolute) [] (split_sep p))
         in if q = [] then (if isAbsolute then ''/'' else if trailingSeparator then ''./'' else ''.'')
            else (if isAbsolute then ''/'' else []) @ q @ (if trailingSeparator then ''/'' else [])))"

definition path_join :: "string list \<Rightarrow> string" where
  "path_join args =
     (let joined = join_with ''/'' (filter (\<lambda>a. a \<noteq> []) args)
      in if joined = [] then ''.'' else normalize joined)"

text \<open>A normalised path lies inside a folder when it continues the folder's path.\<close>

definition inside_folder :: "string \<Rightarrow> string \<Rightarrow> bool" where
  "inside_folder folder p = prefix (folder @ ''/'') p"

section \<open>Documents, the world and the environment\<close>

text \<open>
  The schema \<open>appSchema\<close>. A path of type \<open>String\<close> is absent, \<open>null\<close> or a
  string in every document the servers store, \<open>addons\<close> is an array of strings, and
  \<open>versionCode\<close> is absent, \<open>null\<close> or a number.
\<close>

record app =
  appName :: jsval
  packageName :: jsval
  website :: jsval
  icon :: jsval
  splash :: jsval
  buildFile :: jsval
  buildAAB :: jsval
  contactEmail :: jsval
  versionName :: jsval
  versionCode :: numval
  addons :: jsval
  admobAppId :: jsval
  bannerAd :: jsval
  rewardedAd :: jsval
  paid :: bool
  createdAt :: nat
  updatedAt :: "nat option"

record mail =
  mail_from :: string
  mail_to :: jsval
  mail_subject :: string
  mail_html :: string

record order_params =
  amount :: nat
  currency :: string
  receipt :: string

record gateway_order =
  order_id :: string
  order_amount :: nat
  order_currency :: string
  order_receipt :: string

text \<open>
  What a handler's \<open>try\<close> block can throw: a failed file-system, database, mail or
  gateway call, the validation error with which \<open>save()\<close> rejects a document that
  holds a value its schema cannot cast, or the \<open>TypeError\<close> of reading a property
  of \<open>null\<close> or calling a method a value does not have. A \<open>try\<close> block is a function to
  \<open>world \<times> (exn + response)\<close>: the effects made before a throw stay in the world, and
  the handler's \<open>catch\<close> turns \<open>Inl\<close> into its log line and 500 response.
\<close>

datatype exn = FsError | DbError | ValidationError | MailError | GatewayError | TypeError

datatype log_entry =
    EmailSent jsval
  | EmailSendError
  | SubmitErrorLog exn
  | SearchErrorLog exn
  | OrderErrorLog exn
  | VerifyErrorLog exn

text \<open>
  The world a request handler acts on: the \<open>App\<close> collection in insertion order, the
  files on disk, the mails handed to the transport, the console, and the orders requested
  from the payment gateway.
\<close>

record world =
  db :: "app list"
  files :: "string \<rightharpoonup> string"
  outbox :: "mail list"
  logs :: "log_entry list"
  gateway_calls :: "order_params list"

text \<open>
  What the surroundings decide during one request: the clock (one reading per request), whether the file system,
  the database and the mail transport accept the call, what the gateway answers, and the
  library functions the handlers call: \<open>crypto\<close>'s hex HMAC-SHA256, the database's
  case-insensitive regular-expression match, and JavaScript's conversion of a string to a
  number (\<open>None\<close> for NaN).
\<close>

record env =
  now :: nat
  date_text :: string
  fs_ok :: bool
  db_find_ok :: bool
  db_save_ok :: bool
  mail_ok :: bool
  orders_create :: "order_params \<Rightarrow> gateway_order option"
  hmac_sha256_hex :: "string \<Rightarrow> string \<Rightarrow> string"
  regex_i :: "string \<Rightarrow> string \<Rightarrow> bool"
  string_to_number :: "string \<Rightarrow> number option"

text \<open>\<open>process.env\<close> and \<open>process.cwd()\<close>. The gateway client refuses to be constructed
  without a key secret, so the secret is a string whenever a handler runs.\<close>

record config =
  PORT :: jsval
  RAZORPAY_KEY_SECRET :: string
  EMAIL_USER :: jsval
  cwd :: string

datatype body =
    Text string
  | Exists jsval numval
  | NotExists
  | ErrorOnly string
  | Failure string
  | NotFoundMsg string
  | SubmitOk string string
  | SearchOk app string jsval
  | OrderOk gateway_order
  | VerifyOk string string

record response =
  status :: nat
  body :: body

definition check_mark :: string where "check_mark = [CHR 0xE2, CHR 0x9C, CHR 0x85]"
definition cross_mark :: string where "cross_mark = [CHR 0xE2, CHR 0x9D, CHR 0x8C]"
definition party_popper :: string where "party_popper = [CHR 0xF0, CHR 0x9F, CHR 0x8E, CHR 0x89]"
definition down_arrow :: string where "down_arrow = [CHR 0xE2, CHR 0xAC, CHR 0x87]"
definition dquote :: string where "dquote = [CHR 0x22]"
definition newline :: string where "newline = [CHR 0x0A]"

section \<open>The database operations used by the handlers\<close>

text \<open>
  The filter \<open>{packageName: q}\<close> on a path of schema type \<open>String\<close>. A string
  matches a document whose path is that string; an array is cast to
  \<open>{$in: [...]}\<close> and matches a document whose path is one of its strings; an absent
  or null value matches a document whose path is absent or null. (A path holding an array,
  which the schema never stores, is matched through its elements.)
\<close>

definition filter_matches :: "jsval \<Rightarrow> jsval \<Rightarrow> bool" where
  "filter_matches q v =
     (case q of
        Str s \<Rightarrow> (case v of Str t \<Rightarrow> t = s | Arr ts \<Rightarrow> s \<in> set ts | _ \<Rightarrow> False)
      | Arr ss \<Rightarrow> (case v of Str t \<Rightarrow> t \<in> set ss
                             | Arr ts \<Rightarrow> list_ex (\<lambda>t. t \<in> set ss) ts | _ \<Rightarrow> False)
      | _ \<Rightarrow> v = Undefined \<or> v = Null)"

text \<open>
  Schema casting. A document casts every value assigned to a path to the path's schema
  type, and \<open>save()\<close> rejects the document, writing nothing, when a value could not
  be cast. For a \<open>String\<close> path an array cannot be cast, and the absent value,
  \<open>null\<close> and a string are kept. For the \<open>Number\<close> path the absent value and
  \<open>null\<close> are kept, the empty string becomes \<open>null\<close>, another string is
  converted to a number and cannot be cast when the result is NaN, and an array cannot
  be cast. For the \<open>[String]\<close> path a string becomes the array of that string.
\<close>

definition castable_string :: "jsval \<Rightarrow> bool" where
  "castable_string v = (case v of Arr xs \<Rightarrow> False | _ \<Rightarrow> True)"

definition castNumber :: "env \<Rightarrow> jsval \<Rightarrow> numval option" where
  "castNumber e v =
     (case v of
        Undefined \<Rightarrow> Some NumUndefined
      | Null \<Rightarrow> Some NumNull
      | Str s \<Rightarrow>
          (if s = [] then Some NumNull
           else (case string_to_number e s of None \<Rightarrow> None | Some n \<Rightarrow> Some (Num n)))
      | Arr xs \<Rightarrow> None)"

definition castStringArray :: "jsval \<Rightarrow> jsval" where
  "castStringArray v = (case v of Str s \<Rightarrow> Arr [s] | _ \<Rightarrow> v)"

text \<open>A path whose value could not be cast is left unset in the document.\<close>

definition number_or_unset :: "numval option \<Rightarrow> numval" where
  "number_or_unset c = (case c of None \<Rightarrow> NumUndefined | Some n \<Rightarrow> n)"

fun find_first :: "('a \<Rightarrow> bool) \<Rightarrow> 'a list \<Rightarrow> nat option" where
  "find_first P [] = None"
| "find_first P (x # xs) =
     (if P x then Some 0 else (case find_first P xs of None \<Rightarrow> None | Some i \<Rightarrow> Some (Suc i)))"

text \<open>\<open>AppModel.findOne({packageName: q})\<close>: the position of the first match, or \<open>null\<close>.\<close>

definition findOne :: "env \<Rightarrow> world \<Rightarrow> jsval \<Rightarrow> exn + nat option" where
  "findOne e w q =
     (if db_find_ok e then Inr (find_first (\<lambda>r. filter_matches q (packageName r)) (db w))
      else Inl DbError)"

text \<open>\<open>AppModel.findOneAndUpdate({packageName}, {paid: true, buildAAB: aabPath}, {new: true})\<close>.\<close>

definition findOneAndUpdate :: "env \<Rightarrow> world \<Rightarrow> jsval \<Rightarrow> string \<Rightarrow> world \<times> (exn + app option)" where
  "findOneAndUpdate e w q aabPath =
     (if \<not> db_save_ok e then (w, Inl DbError)
      else (case find_first (\<lambda>r. filter_matches q (packageName r)) (db w) of
              None \<Rightarrow> (w, Inr None)
            | Some i \<Rightarrow>
                (let updated = (db w ! i)\<lparr>paid := True, buildAAB := Str aabPath\<rparr>
                 in (w\<lparr>db := (db w)[i := updated]\<rparr>, Inr (Some updated)))))"

section \<open>server.js: helpers\<close>

definition sendEmail :: "config \<Rightarrow> env \<Rightarrow> world \<Rightarrow> jsval \<Rightarrow> string \<Rightarrow> string \<Rightarrow> world \<times> (exn + unit)" where
  "sendEmail cfg e w to subject html =
     (if mail_ok e
      then (w\<lparr>outbox := outbox w @
               [\<lparr>mail_from = dquote @ ''Web to App Builder'' @ dquote @ '' <'' @ to_string (EMAIL_USER cfg) @ ''>'',
                 mail_to = to, mail_subject = subject, mail_html = html\<rparr>]\<rparr>, Inr ())
      else (w, Inl MailError))"

definition builds_folder :: string where
  "builds_folder = ''uploads/builds''"

definition buildFakeFile :: "env \<Rightarrow> world \<Rightarrow> jsval \<Rightarrow> string \<Rightarrow> world \<times> (exn + string)" where
  "buildFakeFile e w pkg type =
     (let folder = builds_folder;
          filePath = path_join [folder, to_string pkg @ ''.'' @ type]
      in if fs_ok e
         then (w\<lparr>files := (files w)(filePath \<mapsto>
                   toUpperCase type @ '' build for '' @ to_string pkg @ '' at '' @ date_text e)\<rparr>,
               Inr filePath)
         else (w, Inl FsError))"

section \<open>server.js: POST /api/payment/verify\<close>

text \<open>The destructured request body; the JSON body parser always provides an object.\<close>

record verify_body =
  body_packageName :: jsval
  razorpay_order_id :: jsval
  razorpay_payment_id :: jsval
  razorpay_signature :: jsval

definition generated_signature :: "config \<Rightarrow> env \<Rightarrow> verify_body \<Rightarrow> string" where
  "generated_signature cfg e b =
     hmac_sha256_hex e (RAZORPAY_KEY_SECRET cfg)
       (to_string (razorpay_order_id b) @ ''|'' @ to_string (razorpay_payment_id b))"

definition signature_mismatch :: response where
  "signature_mismatch = \<lparr>status = 400, body = Failure (''Signature mismatch '' @ cross_mark)\<rparr>"

definition verify_try :: "config \<Rightarrow> env \<Rightarrow> verify_body \<Rightarrow> world \<Rightarrow> world \<times> (exn + response)" where
  "verify_try cfg e b w =
     (let generated = generated_signature cfg e b
      in if Str generated \<noteq> razorpay_signature b then (w, Inr signature_mismatch)
         else
           (case buildFakeFile e w (body_packageName b) ''aab'' of
              (w1, Inl x) \<Rightarrow> (w1, Inl x)
            | (w1, Inr aabPath) \<Rightarrow>
                (case findOneAndUpdate e w1 (body_packageName b) aabPath of
                   (w2, Inl x) \<Rightarrow> (w2, Inl x)
                 | (w2, Inr None) \<Rightarrow> (w2, Inl TypeError)
                 | (w2, Inr (Some updated)) \<Rightarrow>
                     (let link = ''http://localhost:'' @ to_string (PORT cfg) @ ''/'' @ aabPath
                      in (case sendEmail cfg e w2 (contactEmail updated)
                                 (check_mark @ '' '' @ to_string (appName updated) @ '' AAB Build Ready'')
                                 (''<p>Payment verified successfully!</p>'' @ newline @
                                  ''       <p><b>Package:</b> '' @ to_string (packageName updated) @ ''</p>'' @ newline @
                                  ''       <p><a href='' @ dquote @ link @ dquote @ ''>'' @ down_arrow @
                                  '' Download AAB</a></p>'') of
                            (w3, Inl x) \<Rightarrow> (w3, Inl x)
                          | (w3, Inr u) \<Rightarrow>
                              (w3, Inr \<lparr>status = 200,
                                        body = VerifyOk (check_mark @ '' Payment verified & AAB generated!'') link\<rparr>))))))"

definition api_payment_verify :: "config \<Rightarrow> env \<Rightarrow> verify_body \<Rightarrow> world \<Rightarrow> world \<times> response" where
  "api_payment_verify cfg e b w =
     (case verify_try cfg e b w of
        (w', Inr r) \<Rightarrow> (w', r)
      | (w', Inl x) \<Rightarrow>
          (w'\<lparr>logs := logs w' @ [VerifyErrorLog x]\<rparr>,
           \<lparr>status = 500, body = Failure ''Verification failed''\<rparr>))"

section \<open>server.js: POST /api/submit\<close>

record submit_body =
  data_appName :: jsval
  data_packageName :: jsval
  data_website :: jsval
  data_contactEmail :: jsval
  data_versionName :: jsval
  data_versionCode :: jsval
  data_addons :: jsval
  data_admobAppId :: jsval
  data_bannerAd :: jsval
  data_rewardedAd :: jsval

text \<open>
  A submit request: the parsed form fields, the paths under which the upload middleware
  stored the \<open>icon\<close> and \<open>splash\<close> files (if sent), and the protocol and
  \<open>Host\<close> header of the request.
\<close>

record submit_req =
  req_body :: submit_body
  file_icon :: "string option"
  file_splash :: "string option"
  req_protocol :: string
  req_host :: jsval

definition upload_path :: "string option \<Rightarrow> jsval" where
  "upload_path f = (case f of None \<Rightarrow> Str [] | Some p \<Rightarrow> or_else (Str p) (Str []))"

text \<open>
  \<open>existing.save()\<close> and \<open>newApp.save()\<close>. The flag says whether every value
  assigned to the document could be cast; validation runs before the database is asked.
\<close>

definition save_existing :: "env \<Rightarrow> world \<Rightarrow> nat \<Rightarrow> bool \<Rightarrow> app \<Rightarrow> world \<times> (exn + unit)" where
  "save_existing e w i valid r =
     (if valid
      then (if db_save_ok e then (w\<lparr>db := (db w)[i := r]\<rparr>, Inr ()) else (w, Inl DbError))
      else (w, Inl ValidationError))"

definition save_new :: "env \<Rightarrow> world \<Rightarrow> bool \<Rightarrow> app \<Rightarrow> world \<times> (exn + unit)" where
  "save_new e w valid r =
     (if valid
      then (if db_save_ok e then (w\<lparr>db := db w @ [r]\<rparr>, Inr ()) else (w, Inl DbError))
      else (w, Inl ValidationError))"

text \<open>
  The assignments of the update branch, up to \<open>existing.updatedAt = new Date()\<close>,
  with the casts of the assigned paths; \<open>update_casts\<close> says that all of them could
  be cast.
\<close>

definition update_casts :: "env \<Rightarrow> submit_body \<Rightarrow> bool" where
  "update_casts e d =
     (castable_string (data_appName d) \<and>
      castable_string (data_versionName d) \<and>
      castNumber e (data_versionCode d) \<noteq> None \<and>
      castable_string (data_website d) \<and>
      castable_string (data_admobAppId d) \<and>
      castable_string (data_bannerAd d) \<and>
      castable_string (data_rewardedAd d))"

definition update_existing :: "env \<Rightarrow> submit_body \<Rightarrow> jsval \<Rightarrow> jsval \<Rightarrow> string \<Rightarrow> app \<Rightarrow> app" where
  "update_existing e d icn spl buildPath existing =
     existing\<lparr>appName := data_appName d,
              versionName := data_versionName d,
              versionCode := number_or_unset (castNumber e (data_versionCode d)),
              website := data_website d,
              icon := or_else icn (icon existing),
              splash := or_else spl (splash existing),
              addons := castStringArray (or_else (data_addons d) (addons existing)),
              admobAppId := data_admobAppId d,
              bannerAd := data_bannerAd d,
              rewardedAd := data_rewardedAd d,
              buildFile := Str buildPath,
              updatedAt := Some (now e)\<rparr>"

text \<open>
  \<open>new AppModel({...})\<close>, with the casts of the given paths and the schema defaults
  for \<open>paid\<close> and \<open>createdAt\<close>; \<open>new_app_casts\<close> says that all values could
  be cast.
\<close>

definition new_app_casts :: "env \<Rightarrow> submit_body \<Rightarrow> bool" where
  "new_app_casts e d =
     (castable_string (data_appName d) \<and>
      castable_string (data_packageName d) \<and>
      castable_string (data_website d) \<and>
      castable_string (data_contactEmail d) \<and>
      castable_string (data_admobAppId d) \<and>
      castable_string (data_bannerAd d) \<and>
      castable_string (data_rewardedAd d) \<and>
      castable_string (data_versionName d) \<and>
      castNumber e (data_versionCode d) \<noteq> None)"

definition new_app :: "env \<Rightarrow> submit_body \<Rightarrow> jsval \<Rightarrow> jsval \<Rightarrow> string \<Rightarrow> app" where
  "new_app e d icn spl buildPath =
     \<lparr>appName = data_appName d,
      packageName = data_packageName d,
      website = data_website d,
      icon = icn,
      splash = spl,
      buildFile = Str buildPath,
      buildAAB = Undefined,
      contactEmail = data_contactEmail d,
      versionName = data_versionName d,
      versionCode = number_or_unset (castNumber e (data_versionCode d)),
      addons = castStringArray (or_else (data_addons d) (Arr [])),
      admobAppId = data_admobAppId d,
      bannerAd = data_bannerAd d,
      rewardedAd = data_rewardedAd d,
      paid = False,
      createdAt = now e,
      updatedAt = None\<rparr>"

definition submit_update :: "config \<Rightarrow> env \<Rightarrow> submit_body \<Rightarrow> jsval \<Rightarrow> jsval \<Rightarrow> string \<Rightarrow> nat \<Rightarrow> world
    \<Rightarrow> world \<times> (exn + response)" where
  "submit_update cfg e d icn spl buildPath i w1 =
     (let existing = update_existing e d icn spl buildPath (db w1 ! i)
      in (case save_existing e w1 i (update_casts e d) existing of
            (w2, Inl x) \<Rightarrow> (w2, Inl x)
          | (w2, Inr u) \<Rightarrow>
              (let link = ''http://localhost:'' @ to_string (PORT cfg) @ ''/'' @ buildPath
               in (case sendEmail cfg e w2 (contactEmail existing)
                          (check_mark @ '' '' @ to_string (appName existing) @ '' Updated (v'' @
                           to_string (versionName existing) @ '')'')
                          (''<p>Your app has been updated successfully.</p>'' @ newline @
                           ''         <p><b>Package:</b> '' @ to_string (packageName existing) @ ''</p>'' @ newline @
                           ''         <p><a href='' @ dquote @ link @ dquote @ ''>'' @ down_arrow @
                           '' Download Latest APK</a></p>'') of
                     (w3, Inl x) \<Rightarrow> (w3, Inl x)
                   | (w3, Inr u) \<Rightarrow>
                       (w3, Inr \<lparr>status = 200,
                                 body = SubmitOk (check_mark @ '' Updated '' @ to_string (appName existing) @
                                                  '' to v'' @ to_string (versionName existing)) link\<rparr>)))))"

definition submit_create :: "config \<Rightarrow> env \<Rightarrow> submit_body \<Rightarrow> jsval \<Rightarrow> jsval \<Rightarrow> string \<Rightarrow> world
    \<Rightarrow> world \<times> (exn + response)" where
  "submit_create cfg e d icn spl buildPath w1 =
     (let newApp = new_app e d icn spl buildPath
      in (case save_new e w1 (new_app_casts e d) newApp of
            (w2, Inl x) \<Rightarrow> (w2, Inl x)
          | (w2, Inr u) \<Rightarrow>
              (let link = ''http://localhost:'' @ to_string (PORT cfg) @ ''/'' @ buildPath
               in (case sendEmail cfg e w2 (contactEmail newApp)
                          (party_popper @ '' '' @ to_string (appName newApp) @ '' Build Ready'')
                          (''<p>Your APK is ready for download!</p>'' @ newline @
                           ''       <p><a href='' @ dquote @ link @ dquote @ ''>'' @ down_arrow @
                           '' Download APK</a></p>'') of
                     (w3, Inl x) \<Rightarrow> (w3, Inl x)
                   | (w3, Inr u) \<Rightarrow>
                       (w3, Inr \<lparr>status = 200,
                                 body = SubmitOk (party_popper @ '' '' @ to_string (appName newApp) @
                                                  '' created successfully!'') link\<rparr>)))))"

definition submit_try :: "config \<Rightarrow> env \<Rightarrow> submit_req \<Rightarrow> world \<Rightarrow> world \<times> (exn + response)" where
  "submit_try cfg e req w =
     (let d = req_body req;
          icn = upload_path (file_icon req);
          spl = upload_path (file_splash req)
      in (case findOne e w (data_packageName d) of
            Inl x \<Rightarrow> (w, Inl x)
          | Inr existing \<Rightarrow>
              (case buildFakeFile e w (data_packageName d) ''apk'' of
                 (w1, Inl x) \<Rightarrow> (w1, Inl x)
               | (w1, Inr buildPath) \<Rightarrow>
                   (case existing of
                      Some i \<Rightarrow> submit_update cfg e d icn spl buildPath i w1
                    | None \<Rightarrow> submit_create cfg e d icn spl buildPath w1))))"

definition api_submit :: "config \<Rightarrow> env \<Rightarrow> submit_req \<Rightarrow> world \<Rightarrow> world \<times> response" where
  "api_submit cfg e req w =
     (case submit_try cfg e req w of
        (w', Inr r) \<Rightarrow> (w', r)
      | (w', Inl x) \<Rightarrow>
          (w'\<lparr>logs := logs w' @ [SubmitErrorLog x]\<rparr>,
           \<lparr>status = 500, body = Failure ''Failed to save app''\<rparr>))"

section \<open>server.js: the read-only routes and POST /api/payment/order\<close>

definition api_checkApp :: "env \<Rightarrow> jsval \<Rightarrow> world \<Rightarrow> world \<times> response" where
  "api_checkApp e q w =
     (case findOne e w q of
        Inl x \<Rightarrow> (w, \<lparr>status = 500, body = ErrorOnly ''Check failed''\<rparr>)
      | Inr (Some i) \<Rightarrow>
          (w, \<lparr>status = 200, body = Exists (versionName (db w ! i)) (versionCode (db w ! i))\<rparr>)
      | Inr None \<Rightarrow> (w, \<lparr>status = 200, body = NotExists\<rparr>))"

definition regex_field :: "env \<Rightarrow> string \<Rightarrow> jsval \<Rightarrow> bool" where
  "regex_field e query v = (case v of Str s \<Rightarrow> regex_i e query s | _ \<Rightarrow> False)"

definition search_try :: "config \<Rightarrow> env \<Rightarrow> jsval \<Rightarrow> world \<Rightarrow> exn + response" where
  "search_try cfg e q w =
     (case or_else q (Str []) of
        Str s \<Rightarrow>
          (let query = trim s
           in if query = [] then Inr \<lparr>status = 400, body = ErrorOnly ''Missing search query''\<rparr>
              else if \<not> db_find_ok e then Inl DbError
              else (case find_first (\<lambda>r. regex_field e query (appName r) \<or>
                                           regex_field e query (packageName r)) (db w) of
                      None \<Rightarrow> Inr \<lparr>status = 200, body = NotFoundMsg ''App not found''\<rparr>
                    | Some i \<Rightarrow>
                        (let appData = db w ! i
                         in Inr \<lparr>status = 200,
                                 body = SearchOk appData
                                   (''http://localhost:'' @ to_string (PORT cfg) @ ''/'' @
                                    to_string (buildFile appData))
                                   (if truthy (buildAAB appData)
                                    then Str (''http://localhost:'' @ to_string (PORT cfg) @ ''/'' @
                                              to_string (buildAAB appData))
                                    else Null)\<rparr>)))
      | _ \<Rightarrow> Inl TypeError)"

definition api_search :: "config \<Rightarrow> env \<Rightarrow> jsval \<Rightarrow> world \<Rightarrow> world \<times> response" where
  "api_search cfg e q w =
     (case search_try cfg e q w of
        Inr r \<Rightarrow> (w, r)
      | Inl x \<Rightarrow>
          (w\<lparr>logs := logs w @ [SearchErrorLog x]\<rparr>,
           \<lparr>status = 500, body = Failure ''Search failed''\<rparr>))"

definition order_request :: "env \<Rightarrow> order_params" where
  "order_request e = \<lparr>amount = 699900, currency = ''INR'', receipt = ''order_'' @ show_nat (now e)\<rparr>"

definition api_payment_order :: "env \<Rightarrow> world \<Rightarrow> world \<times> response" where
  "api_payment_order e w =
     (let w1 = w\<lparr>gateway_calls := gateway_calls w @ [order_request e]\<rparr>
      in (case orders_create e (order_request e) of
            Some order \<Rightarrow> (w1, \<lparr>status = 200, body = OrderOk order\<rparr>)
          | None \<Rightarrow>
              (w1\<lparr>logs := logs w1 @ [OrderErrorLog GatewayError]\<rparr>,
               \<lparr>status = 500, body = Failure ''Payment order failed''\<rparr>)))"

definition api_root :: "world \<Rightarrow> world \<times> response" where
  "api_root w = (w, \<lparr>status = 200, body = Text (check_mark @ '' Web-to-App Builder Backend Running!'')\<rparr>)"

section \<open>The second server file (src/unnamed/part_000)\<close>

text \<open>
  The second file has no \<open>/api/checkApp\<close> and no \<open>/api/search\<close> route. Its
  \<open>sendEmail\<close> catches the transport's error and logs it, its builds folder is absolute,
  its submit handler always creates a document, and its links are built from the request.
\<close>

definition sendEmail_part0 :: "config \<Rightarrow> env \<Rightarrow> world \<Rightarrow> jsval \<Rightarrow> string \<Rightarrow> string \<Rightarrow> world" where
  "sendEmail_part0 cfg e w to subject html =
     (if mail_ok e
      then w\<lparr>outbox := outbox w @
               [\<lparr>mail_from = dquote @ ''Web to App Builder'' @ dquote @ '' <'' @ to_string (EMAIL_USER cfg) @ ''>'',
                 mail_to = to, mail_subject = subject, mail_html = html\<rparr>],
             logs := logs w @ [EmailSent to]\<rparr>
      else w\<lparr>logs := logs w @ [EmailSendError]\<rparr>)"

definition builds_folder_part0 :: "config \<Rightarrow> string" where
  "builds_folder_part0 cfg = path_join [cwd cfg, ''uploads'', ''builds'']"

definition buildFakeFile_part0 :: "config \<Rightarrow> env \<Rightarrow> world \<Rightarrow> jsval \<Rightarrow> string \<Rightarrow> world \<times> (exn + string)" where
  "buildFakeFile_part0 cfg e w pkg type =
     (let folder = builds_folder_part0 cfg;
          filePath = path_join [folder, to_string pkg @ ''.'' @ type]
      in if fs_ok e
         then (w\<lparr>files := (files w)(filePath \<mapsto>
                   toUpperCase type @ '' build for '' @ to_string pkg @ '' at '' @ date_text e)\<rparr>,
               Inr filePath)
         else (w, Inl FsError))"

text \<open>\<open>buildPath.replace(/\\/g, "/")\<close>.\<close>

definition slashes :: "string \<Rightarrow> string" where
  "slashes p = map (\<lambda>c. if c = CHR 0x5C then CHR ''/'' else c) p"

definition public_link :: "string \<Rightarrow> jsval \<Rightarrow> string \<Rightarrow> string" where
  "public_link protocol host p = protocol @ ''://'' @ to_string host @ ''/'' @ slashes p"

definition submit_try_part0 :: "config \<Rightarrow> env \<Rightarrow> submit_req \<Rightarrow> world \<Rightarrow> world \<times> (exn + response)" where
  "submit_try_part0 cfg e req w =
     (let d = req_body req;
          icn = upload_path (file_icon req);
          spl = upload_path (file_splash req)
      in (case buildFakeFile_part0 cfg e w (data_packageName d) ''apk'' of
            (w1, Inl x) \<Rightarrow> (w1, Inl x)
          | (w1, Inr buildPath) \<Rightarrow>
              (let publicLink = public_link (req_protocol req) (req_host req) buildPath;
                   newApp = new_app e d icn spl buildPath
               in (case save_new e w1 (new_app_casts e d) newApp of
                     (w2, Inl x) \<Rightarrow> (w2, Inl x)
                   | (w2, Inr u) \<Rightarrow>
                       (let w3 = sendEmail_part0 cfg e w2 (contactEmail newApp)
                                   (party_popper @ '' '' @ to_string (appName newApp) @ '' Build Ready'')
                                   (''<p>Your APK is ready for download!</p>'' @ newline @
                                    ''       <p><a href='' @ dquote @ publicLink @ dquote @ '' download>'' @
                                    down_arrow @ '' Download APK</a></p>'')
                        in (w3, Inr \<lparr>status = 200,
                                     body = SubmitOk (party_popper @ '' '' @ to_string (appName newApp) @
                                                      '' created successfully!'') publicLink\<rparr>))))))"

definition api_submit_part0 :: "config \<Rightarrow> env \<Rightarrow> submit_req \<Rightarrow> world \<Rightarrow> world \<times> response" where
  "api_submit_part0 cfg e req w =
     (case submit_try_part0 cfg e req w of
        (w', Inr r) \<Rightarrow> (w', r)
      | (w', Inl x) \<Rightarrow>
          (w'\<lparr>logs := logs w' @ [SubmitErrorLog x]\<rparr>,
           \<lparr>status = 500, body = Failure ''Failed to save app''\<rparr>))"

record verify_req =
  vreq_body :: verify_body
  vreq_protocol :: string
  vreq_host :: jsval

definition verify_try_part0 :: "config \<Rightarrow> env \<Rightarrow> verify_req \<Rightarrow> world \<Rightarrow> world \<times> (exn + response)" where
  "verify_try_part0 cfg e req w =
     (let b = vreq_body req;
          generated = generated_signature cfg e b
      in if Str generated \<noteq> razorpay_signature b then (w, Inr signature_mismatch)
         else
           (case buildFakeFile_part0 cfg e w (body_packageName b) ''aab'' of
              (w1, Inl x) \<Rightarrow> (w1, Inl x)
            | (w1, Inr aabPath) \<Rightarrow>
                (let publicAAB = public_link (vreq_protocol req) (vreq_host req) aabPath
                 in (case findOneAndUpdate e w1 (body_packageName b) aabPath of
                       (w2, Inl x) \<Rightarrow> (w2, Inl x)
                     | (w2, Inr None) \<Rightarrow> (w2, Inl TypeError)
                     | (w2, Inr (Some updated)) \<Rightarrow>
                         (let w3 = sendEmail_part0 cfg e w2 (contactEmail updated)
                                     (check_mark @ '' '' @ to_string (appName updated) @ '' AAB Build Ready'')
                                     (''<p>Payment verified successfully!</p>'' @ newline @
                                      ''       <p><a href='' @ dquote @ publicAAB @ dquote @ '' download>'' @
                                      down_arrow @ '' Download AAB</a></p>'')
                          in (w3, Inr \<lparr>status = 200,
                                       body = VerifyOk (check_mark @ '' Payment verified & AAB generated!'')
                                                publicAAB\<rparr>))))))"

definition api_payment_verify_part0 :: "config \<Rightarrow> env \<Rightarrow> verify_req \<Rightarrow> world \<Rightarrow> world \<times> response" where
  "api_payment_verify_part0 cfg e req w =
     (case verify_try_part0 cfg e req w of
        (w', Inr r) \<Rightarrow> (w', r)
      | (w', Inl x) \<Rightarrow>
          (w'\<lparr>logs := logs w' @ [VerifyErrorLog x]\<rparr>,
           \<lparr>status = 500, body = Failure ''Verification failed''\<rparr>))"

section \<open>The servers as state machines\<close>

datatype request =
    GetRoot
  | CheckApp jsval
  | Submit submit_req
  | Search jsval
  | PaymentOrder
  | PaymentVerify verify_req

text \<open>One request against server.js.\<close>

fun handle :: "config \<Rightarrow> env \<Rightarrow> request \<Rightarrow> world \<Rightarrow> world \<times> response" where
  "handle cfg e GetRoot w = api_root w"
| "handle cfg e (CheckApp q) w = api_checkApp e q w"
| "handle cfg e (Submit req) w = api_submit cfg e req w"
| "handle cfg e (Search q) w = api_search cfg e q w"
| "handle cfg e PaymentOrder w = api_payment_order e w"
| "handle cfg e (PaymentVerify req) w = api_payment_verify cfg e (vreq_body req) w"

text \<open>One request against the second file; a route it lacks is answered 404 by the framework.\<close>

fun handle_part0 :: "config \<Rightarrow> env \<Rightarrow> request \<Rightarrow> world \<Rightarrow> world \<times> response" where
  "handle_part0 cfg e GetRoot w = api_root w"
| "handle_part0 cfg e (Submit req) w = api_submit_part0 cfg e req w"
| "handle_part0 cfg e PaymentOrder w = api_payment_order e w"
| "handle_part0 cfg e (PaymentVerify req) w = api_payment_verify_part0 cfg e req w"
| "handle_part0 cfg e r w = (w, \<lparr>status = 404, body = Text ''Cannot GET''\<rparr>)"

text \<open>A run: the requests are served one after the other, each in its own environment.\<close>

fun run :: "(config \<Rightarrow> env \<Rightarrow> request \<Rightarrow> world \<Rightarrow> world \<times> response) \<Rightarrow> config \<Rightarrow> (env \<times> request) list \<Rightarrow> world \<Rightarrow> world" where
  "run h cfg [] w = w"
| "run h cfg ((e, r) # rs) w = run h cfg rs (fst (h cfg e r w))"

definition empty_world :: world where
  "empty_world = \<lparr>db = [], files = Map.empty, outbox = [], logs = [], gateway_calls = []\<rparr>"


section \<open>Concrete inputs\<close>

text \<open>A configuration, an environment in which every outside call succeeds at time \<open>t\<close>,
  and the submission of the example scenario. In the example environment the keyed hash
  is stood in for by \<open>key # message\<close>, so the correct signature of the example payment
  is \<open>s3cret#order_A1|pay_B2\<close>; the conversion of a string to a number is stood in for by
  \<open>decimal_number\<close>, which is right on the strings of decimal digits and takes every
  other string for NaN.\<close>

definition example_config :: config where
  "example_config =
     \<lparr>PORT = Str ''5000'', RAZORPAY_KEY_SECRET = ''s3cret'',
      EMAIL_USER = Str ''builder@example.com'', cwd = ''/srv/app''\<rparr>"

fun decimal_value :: "string \<Rightarrow> nat \<Rightarrow> nat option" where
  "decimal_value [] acc = Some acc"
| "decimal_value (c # cs) acc =
     (case map_of [(CHR ''0'', 0), (CHR ''1'', 1), (CHR ''2'', 2), (CHR ''3'', 3), (CHR ''4'', 4),
                   (CHR ''5'', 5), (CHR ''6'', 6), (CHR ''7'', 7), (CHR ''8'', 8), (CHR ''9'', 9)] c of
        None \<Rightarrow> None
      | Some d \<Rightarrow> decimal_value cs (10 * acc + d))"

definition decimal_number :: "string \<Rightarrow> number option" where
  "decimal_number s =
     (if s = [] then None
      else (case decimal_value s 0 of None \<Rightarrow> None | Some n \<Rightarrow> Some (Finite (of_nat n))))"

definition example_env :: "nat \<Rightarrow> env" where
  "example_env t =
     \<lparr>now = t, date_text = ''Mon Nov 02 2026'', fs_ok = True, db_find_ok = True,
      db_save_ok = True, mail_ok = True,
      orders_create = (\<lambda>p. Some \<lparr>order_id = ''order_A1'', order_amount = amount p,
                                   order_currency = currency p, order_receipt = receipt p\<rparr>),
      hmac_sha256_hex = (\<lambda>k m. k @ ''#'' @ m),
      regex_i = (\<lambda>p s. False),
      string_to_number = decimal_number\<rparr>"

definition acme_body :: submit_body where
  "acme_body =
     \<lparr>data_appName = Str ''Acme'', data_packageName = Str ''com.acme.app'',
      data_website = Str ''https://acme.example'', data_contactEmail = Str ''a@x.com'',
      data_versionName = Str ''1.0'', data_versionCode = Str ''1'', data_addons = Undefined,
      data_admobAppId = Undefined, data_bannerAd = Undefined, data_rewardedAd = Undefined\<rparr>"

definition form_request :: "submit_body \<Rightarrow> submit_req" where
  "form_request d =
     \<lparr>req_body = d, file_icon = None, file_splash = None,
      req_protocol = ''http'', req_host = Str ''localhost:5000''\<rparr>"

definition json_request :: "verify_body \<Rightarrow> verify_req" where
  "json_request b = \<lparr>vreq_body = b, vreq_protocol = ''http'', vreq_host = Str ''localhost:5000''\<rparr>"

definition acme_payment :: "jsval \<Rightarrow> verify_body" where
  "acme_payment sig =
     \<lparr>body_packageName = Str ''com.acme.app'', razorpay_order_id = Str ''order_A1'',
      razorpay_payment_id = Str ''pay_B2'', razorpay_signature = sig\<rparr>"

text \<open>The world after the example submission has been served by server.js at time 5.\<close>

definition acme_world :: world where
  "acme_world = fst (api_submit example_config (example_env 5) (form_request acme_body) empty_world)"

text \<open>The world after the example package has then been paid for at time 9.\<close>

definition acme_paid_world :: world where
  "acme_paid_world =
     fst (api_payment_verify example_config (example_env 9)
            (acme_payment (Str ''s3cret#order_A1|pay_B2'')) acme_world)"

text \<open>A second submission of the example package: the app name is left empty and another
  contact address is given.\<close>

definition acme_resubmission :: submit_body where
  "acme_resubmission = acme_body\<lparr>data_appName := Str [], data_contactEmail := Str ''b@x.com''\<rparr>"

section \<open>Evaluation and basic facts\<close>

lemmas handler_defs =
  api_submit_def submit_try_def submit_create_def submit_update_def
  api_submit_part0_def submit_try_part0_def
  api_payment_verify_def verify_try_def api_payment_verify_part0_def verify_try_part0_def
  api_payment_order_def api_checkApp_def api_search_def api_root_def
  findOne_def findOneAndUpdate_def save_new_def save_existing_def
  sendEmail_def sendEmail_part0_def buildFakeFile_def buildFakeFile_part0_def Let_def

lemmas value_defs =
  new_app_def update_existing_def upload_path_def or_else_def filter_matches_def
  generated_signature_def signature_mismatch_def order_request_def public_link_def slashes_def
  castable_string_def castNumber_def castStringArray_def number_or_unset_def
  new_app_casts_def update_casts_def decimal_number_def

lemmas path_defs = path_join_def normalize_def builds_folder_def builds_folder_part0_def inside_folder_def

lemmas example_defs =
  example_config_def example_env_def acme_body_def form_request_def json_request_def
  acme_payment_def empty_world_def acme_resubmission_def

lemma toUpperCase_apk: "toUpperCase ''apk'' = ''APK''"
  by code_simp

lemma toUpperCase_aab: "toUpperCase ''aab'' = ''AAB''"
  by code_simp

lemma find_first_Some:
  "find_first P xs = Some i \<Longrightarrow> i < length xs \<and> P (xs ! i) \<and> (\<forall>k<i. \<not> P (xs ! k))"
proof (induction xs arbitrary: i)
  case Nil
  then show ?case by simp
next
  case (Cons x xs)
  show ?case
  proof (cases "P x")
    case True
    with Cons.prems show ?thesis by simp
  next
    case False
    with Cons.prems obtain j where j: "find_first P xs = Some j" and i: "i = Suc j"
      by (auto split: option.splits)
    from Cons.IH [OF j] False i show ?thesis
      by (auto simp: nth_Cons split: nat.splits)
  qed
qed

lemma find_first_None: "find_first P xs = None \<longleftrightarrow> (\<forall>x\<in>set xs. \<not> P x)"
  by (induction xs) (auto split: option.splits)

lemma find_first_append_new:
  "find_first P xs = None \<Longrightarrow> P x \<Longrightarrow> find_first P (xs @ [x]) = Some (length xs)"
  by (induction xs) (auto split: option.splits if_splits)

lemma filter_matches_refl: "castable_string q \<Longrightarrow> filter_matches q q"
  by (cases q) (simp_all add: filter_matches_def castable_string_def)



lemma new_app_casts_update: "new_app_casts e d \<Longrightarrow> update_casts e d"
  by (simp add: new_app_casts_def update_casts_def)

subsection \<open>Decimal rendering is injective\<close>

lemma digit_char_inj: "a < 10 \<Longrightarrow> b < 10 \<Longrightarrow> digit_char a = digit_char b \<Longrightarrow> a = b"
  by (auto simp: digit_char_def numeral_eq_Suc less_Suc_eq)

lemma show_nat_nonempty: "show_nat n \<noteq> []"
  by (subst show_nat.simps) simp

lemma show_nat_inj: "show_nat m = show_nat n \<Longrightarrow> m = n"
proof (induction m arbitrary: n rule: show_nat.induct)
  case (1 m)
  show ?case
  proof (cases "m < 10")
    case True
    show ?thesis
    proof (cases "n < 10")
      case True
      with \<open>m < 10\<close> "1.prems" show ?thesis
        by (simp add: show_nat.simps [of m] show_nat.simps [of n] digit_char_inj)
    next
      case False
      with \<open>m < 10\<close> "1.prems" show_nat_nonempty [of "n div 10"] show ?thesis
        by (simp add: show_nat.simps [of m] show_nat.simps [of n])
    qed
  next
    case False
    show ?thesis
    proof (cases "n < 10")
      case True
      with \<open>\<not> m < 10\<close> "1.prems" show_nat_nonempty [of "m div 10"] show ?thesis
        by (simp add: show_nat.simps [of m] show_nat.simps [of n])
    next
      case nbig: False
      from False nbig "1.prems"
      have eq: "show_nat (m div 10) = show_nat (n div 10)"
        and dg: "digit_char (m mod 10) = digit_char (n mod 10)"
        by (simp_all add: show_nat.simps [of m] show_nat.simps [of n])
      from "1.IH" [OF False eq] have d: "m div 10 = n div 10" .
      from dg have r: "m mod 10 = n mod 10" by (simp add: digit_char_inj)
      from d r show ?thesis by (metis div_mult_mod_eq)
    qed
  qed
qed

section \<open>Payment verification: the signature check\<close>

text \<open>
  Claim C1. Whenever the supplied signature differs from the recomputed HMAC, the verify
  handler answers 400 with the signature-mismatch body and returns the world as it found
  it: no document is changed, no file is written, no mail is sent. This holds for the
  handler of server.js and for the handler of the second file.
\<close>

theorem verify_mismatch_has_no_effect:
  assumes "razorpay_signature b \<noteq> Str (generated_signature cfg e b)"
  shows "api_payment_verify cfg e b w =
           (w, \<lparr>status = 400, body = Failure (''Signature mismatch '' @ cross_mark)\<rparr>) \<and>
         api_payment_verify_part0 cfg e \<lparr>vreq_body = b, vreq_protocol = pr, vreq_host = h\<rparr> w =
           (w, \<lparr>status = 400, body = Failure (''Signature mismatch '' @ cross_mark)\<rparr>)"
  using assms
  by (auto simp: api_payment_verify_def verify_try_def api_payment_verify_part0_def
      verify_try_part0_def signature_mismatch_def)

theorem verify_mismatch_has_no_effect_witness:
  "razorpay_signature (acme_payment (Str ''forged'')) \<noteq>
     Str (generated_signature example_config (example_env 9) (acme_payment (Str ''forged''))) \<and>
   api_payment_verify example_config (example_env 9) (acme_payment (Str ''forged'')) acme_world =
     (acme_world, \<lparr>status = 400, body = Failure (''Signature mismatch '' @ cross_mark)\<rparr>) \<and>
   api_payment_verify_part0 example_config (example_env 9)
       \<lparr>vreq_body = acme_payment (Str ''forged''), vreq_protocol = ''http'', vreq_host = Str ''localhost''\<rparr>
       acme_world =
     (acme_world, \<lparr>status = 400, body = Failure (''Signature mismatch '' @ cross_mark)\<rparr>)"
proof -
  have h: "razorpay_signature (acme_payment (Str ''forged'')) \<noteq>
     Str (generated_signature example_config (example_env 9) (acme_payment (Str ''forged'')))"
    by (simp add: acme_payment_def generated_signature_def example_env_def example_config_def)
  from h verify_mismatch_has_no_effect [OF h, of acme_world "''http''" "Str ''localhost''"]
  show ?thesis by simp
qed

text \<open>
  Claim C7. The expected signature is the hex HMAC-SHA256 of \<open>orderId + "|" + paymentId\<close>
  under the gateway secret, and the handler rejects the request as a signature mismatch if
  and only if the supplied signature is not exactly that string. The request is fulfilled
  with a 200 response exactly when, in addition, the file write and the database update
  succeed, a document of the package exists and (in server.js) the mail is accepted.
\<close>

theorem verify_signature_is_hmac_equality:
  "generated_signature cfg e b =
     hmac_sha256_hex e (RAZORPAY_KEY_SECRET cfg)
       (to_string (razorpay_order_id b) @ ''|'' @ to_string (razorpay_payment_id b)) \<and>
   (snd (api_payment_verify cfg e b w) = signature_mismatch \<longleftrightarrow>
      razorpay_signature b \<noteq> Str (generated_signature cfg e b)) \<and>
   (snd (api_payment_verify_part0 cfg e \<lparr>vreq_body = b, vreq_protocol = pr, vreq_host = h\<rparr> w) =
        signature_mismatch \<longleftrightarrow>
      razorpay_signature b \<noteq> Str (generated_signature cfg e b)) \<and>
   (status (snd (api_payment_verify cfg e b w)) = 200 \<longleftrightarrow>
      razorpay_signature b = Str (generated_signature cfg e b) \<and> fs_ok e \<and> db_save_ok e \<and>
      find_first (\<lambda>r. filter_matches (body_packageName b) (packageName r)) (db w) \<noteq> None \<and>
      mail_ok e) \<and>
   (status (snd (api_payment_verify_part0 cfg e \<lparr>vreq_body = b, vreq_protocol = pr, vreq_host = h\<rparr> w)) = 200 \<longleftrightarrow>
      razorpay_signature b = Str (generated_signature cfg e b) \<and> fs_ok e \<and> db_save_ok e \<and>
      find_first (\<lambda>r. filter_matches (body_packageName b) (packageName r)) (db w) \<noteq> None)"
proof (intro conjI)
  show "generated_signature cfg e b =
     hmac_sha256_hex e (RAZORPAY_KEY_SECRET cfg)
       (to_string (razorpay_order_id b) @ ''|'' @ to_string (razorpay_payment_id b))"
    by (simp add: generated_signature_def)
  show "snd (api_payment_verify cfg e b w) = signature_mismatch \<longleftrightarrow>
      razorpay_signature b \<noteq> Str (generated_signature cfg e b)"
    by (auto simp: api_payment_verify_def verify_try_def signature_mismatch_def Let_def
        split: prod.splits sum.splits option.splits)
  show "snd (api_payment_verify_part0 cfg e \<lparr>vreq_body = b, vreq_protocol = pr, vreq_host = h\<rparr> w) =
        signature_mismatch \<longleftrightarrow>
      razorpay_signature b \<noteq> Str (generated_signature cfg e b)"
    by (auto simp: api_payment_verify_part0_def verify_try_part0_def signature_mismatch_def Let_def
        split: prod.splits sum.splits option.splits)
  show "status (snd (api_payment_verify cfg e b w)) = 200 \<longleftrightarrow>
      razorpay_signature b = Str (generated_signature cfg e b) \<and> fs_ok e \<and> db_save_ok e \<and>
      find_first (\<lambda>r. filter_matches (body_packageName b) (packageName r)) (db w) \<noteq> None \<and>
      mail_ok e"
    by (auto simp: api_payment_verify_def verify_try_def signature_mismatch_def Let_def
        buildFakeFile_def findOneAndUpdate_def sendEmail_def
        split: prod.splits sum.splits option.splits if_splits)
  show "status (snd (api_payment_verify_part0 cfg e \<lparr>vreq_body = b, vreq_protocol = pr, vreq_host = h\<rparr> w)) = 200 \<longleftrightarrow>
      razorpay_signature b = Str (generated_signature cfg e b) \<and> fs_ok e \<and> db_save_ok e \<and>
      find_first (\<lambda>r. filter_matches (body_packageName b) (packageName r)) (db w) \<noteq> None"
    by (auto simp: api_payment_verify_part0_def verify_try_part0_def signature_mismatch_def Let_def
        buildFakeFile_part0_def findOneAndUpdate_def
        split: prod.splits sum.splits option.splits if_splits)
qed

lemma acme_world_db:
  "db acme_world = [new_app (example_env 5) acme_body (Str []) (Str []) ''uploads/builds/com.acme.app.apk'']"
  by (simp add: acme_world_def handler_defs value_defs path_defs example_defs)

theorem verify_signature_is_hmac_equality_witness:
  "razorpay_signature (acme_payment (Str ''s3cret#order_A1|pay_B2'')) =
     Str (hmac_sha256_hex (example_env 9) (RAZORPAY_KEY_SECRET example_config) ''order_A1|pay_B2'') \<and>
   snd (api_payment_verify example_config (example_env 9)
          (acme_payment (Str ''s3cret#order_A1|pay_B2'')) acme_world) \<noteq> signature_mismatch \<and>
   status (snd (api_payment_verify example_config (example_env 9)
          (acme_payment (Str ''s3cret#order_A1|pay_B2'')) acme_world)) = 200 \<and>
   snd (api_payment_verify example_config (example_env 9)
          (acme_payment (Str ''s3cret#order_A1|pay_B'')) acme_world) = signature_mismatch"
  using verify_signature_is_hmac_equality
          [of example_config "example_env 9" "acme_payment (Str ''s3cret#order_A1|pay_B2'')" acme_world]
        verify_signature_is_hmac_equality
          [of example_config "example_env 9" "acme_payment (Str ''s3cret#order_A1|pay_B'')" acme_world]
  by (simp add: acme_world_db acme_payment_def example_env_def example_config_def
      generated_signature_def new_app_def acme_body_def filter_matches_def)

section \<open>Order creation\<close>

text \<open>
  Claim C8. Every call of the order handler asks the gateway for an order of 699900 minor
  units in INR with the receipt \<open>"order_"\<close> followed by the decimal clock reading; two
  calls whose clock readings differ ask with different receipts; and when the gateway
  fails the handler answers 500 and leaves documents, files and mails as they were.
\<close>

theorem create_order_request_and_failure:
  "gateway_calls (fst (api_payment_order e w)) =
     gateway_calls w @ [\<lparr>amount = 699900, currency = ''INR'', receipt = ''order_'' @ show_nat (now e)\<rparr>] \<and>
   (now e \<noteq> now e' \<longrightarrow>
      receipt (last (gateway_calls (fst (api_payment_order e w)))) \<noteq>
      receipt (last (gateway_calls (fst (api_payment_order e' w'))))) \<and>
   (orders_create e (order_request e) = None \<longrightarrow>
      snd (api_payment_order e w) = \<lparr>status = 500, body = Failure ''Payment order failed''\<rparr> \<and>
      db (fst (api_payment_order e w)) = db w \<and>
      files (fst (api_payment_order e w)) = files w \<and>
      outbox (fst (api_payment_order e w)) = outbox w)"
proof (intro conjI impI)
  show calls: "gateway_calls (fst (api_payment_order e w)) =
     gateway_calls w @ [\<lparr>amount = 699900, currency = ''INR'', receipt = ''order_'' @ show_nat (now e)\<rparr>]"
    for e w
    by (simp add: api_payment_order_def order_request_def Let_def split: option.splits)
  assume "now e \<noteq> now e'"
  then have "show_nat (now e) \<noteq> show_nat (now e')"
    using show_nat_inj by blast
  then show "receipt (last (gateway_calls (fst (api_payment_order e w)))) \<noteq>
      receipt (last (gateway_calls (fst (api_payment_order e' w'))))"
    by (simp add: calls)
next
  assume "orders_create e (order_request e) = None"
  then show "snd (api_payment_order e w) = \<lparr>status = 500, body = Failure ''Payment order failed''\<rparr>"
    and "db (fst (api_payment_order e w)) = db w"
    and "files (fst (api_payment_order e w)) = files w"
    and "outbox (fst (api_payment_order e w)) = outbox w"
    by (simp_all add: api_payment_order_def Let_def)
qed

theorem create_order_request_and_failure_witness:
  "now ((example_env 5)\<lparr>orders_create := \<lambda>p. None\<rparr>) \<noteq> now (example_env 6) \<and>
   orders_create ((example_env 5)\<lparr>orders_create := \<lambda>p. None\<rparr>)
     (order_request ((example_env 5)\<lparr>orders_create := \<lambda>p. None\<rparr>)) = None \<and>
   receipt (last (gateway_calls (fst (api_payment_order ((example_env 5)\<lparr>orders_create := \<lambda>p. None\<rparr>) acme_world)))) \<noteq>
     receipt (last (gateway_calls (fst (api_payment_order (example_env 6) acme_world)))) \<and>
   snd (api_payment_order ((example_env 5)\<lparr>orders_create := \<lambda>p. None\<rparr>) acme_world) =
     \<lparr>status = 500, body = Failure ''Payment order failed''\<rparr> \<and>
   db (fst (api_payment_order ((example_env 5)\<lparr>orders_create := \<lambda>p. None\<rparr>) acme_world)) = db acme_world"
proof -
  have t: "now ((example_env 5)\<lparr>orders_create := \<lambda>p. None\<rparr>) \<noteq> now (example_env 6)"
    by (simp add: example_env_def)
  have g: "orders_create ((example_env 5)\<lparr>orders_create := \<lambda>p. None\<rparr>)
     (order_request ((example_env 5)\<lparr>orders_create := \<lambda>p. None\<rparr>)) = None"
    by simp
  from t g create_order_request_and_failure
         [of "(example_env 5)\<lparr>orders_create := \<lambda>p. None\<rparr>" acme_world "example_env 6" acme_world]
  show ?thesis by blast
qed

section \<open>The path of a stub artifact\<close>

text \<open>
  Claim C10. \<open>buildFakeFile\<close> writes the stub at \<open>path.join\<close> of the builds folder and
  the string \<open>packageName + "." + type\<close>, for whatever value it is given; the submit
  and verify handlers hand it the request's \<open>packageName\<close> as received. For the package
  name \<open>../../evil\<close> the written path is \<open>evil.apk\<close> (under the working directory in
  the second file), which is not inside the builds folder.
\<close>

theorem buildFakeFile_path_not_confined:
  "(fs_ok e \<longrightarrow>
      snd (buildFakeFile e w pkg ty) = Inr (path_join [''uploads/builds'', to_string pkg @ ''.'' @ ty]) \<and>
      files (fst (buildFakeFile e w pkg ty)) (path_join [''uploads/builds'', to_string pkg @ ''.'' @ ty]) \<noteq> None \<and>
      snd (buildFakeFile_part0 cfg e w pkg ty) =
        Inr (path_join [path_join [cwd cfg, ''uploads'', ''builds''], to_string pkg @ ''.'' @ ty]) \<and>
      files (fst (buildFakeFile_part0 cfg e w pkg ty))
        (path_join [path_join [cwd cfg, ''uploads'', ''builds''], to_string pkg @ ''.'' @ ty]) \<noteq> None) \<and>
   (fs_ok e \<and> db_find_ok e \<longrightarrow>
      files (fst (api_submit cfg e req w))
        (path_join [''uploads/builds'', to_string (data_packageName (req_body req)) @ ''.apk'']) \<noteq> None) \<and>
   (fs_ok e \<longrightarrow>
      files (fst (api_submit_part0 cfg e req w))
        (path_join [path_join [cwd cfg, ''uploads'', ''builds''],
                    to_string (data_packageName (req_body req)) @ ''.apk'']) \<noteq> None) \<and>
   (fs_ok e \<and> razorpay_signature b = Str (generated_signature cfg e b) \<longrightarrow>
      files (fst (api_payment_verify cfg e b w))
        (path_join [''uploads/builds'', to_string (body_packageName b) @ ''.aab'']) \<noteq> None) \<and>
   path_join [''uploads/builds'', to_string (Str ''../../evil'') @ ''.'' @ ''apk''] = ''evil.apk'' \<and>
   \<not> inside_folder ''uploads/builds'' ''evil.apk'' \<and>
   path_join [path_join [cwd example_config, ''uploads'', ''builds''],
              to_string (Str ''../../evil'') @ ''.'' @ ''apk''] = ''/srv/app/evil.apk'' \<and>
   \<not> inside_folder (path_join [cwd example_config, ''uploads'', ''builds'']) ''/srv/app/evil.apk''"
proof (intro conjI impI)
  assume "fs_ok e"
  then show "snd (buildFakeFile e w pkg ty) = Inr (path_join [''uploads/builds'', to_string pkg @ ''.'' @ ty])"
    and "files (fst (buildFakeFile e w pkg ty)) (path_join [''uploads/builds'', to_string pkg @ ''.'' @ ty]) \<noteq> None"
    and "snd (buildFakeFile_part0 cfg e w pkg ty) =
        Inr (path_join [path_join [cwd cfg, ''uploads'', ''builds''], to_string pkg @ ''.'' @ ty])"
    and "files (fst (buildFakeFile_part0 cfg e w pkg ty))
        (path_join [path_join [cwd cfg, ''uploads'', ''builds''], to_string pkg @ ''.'' @ ty]) \<noteq> None"
    by (simp_all add: buildFakeFile_def buildFakeFile_part0_def builds_folder_def
        builds_folder_part0_def Let_def)
next
  assume "fs_ok e \<and> db_find_ok e"
  then show "files (fst (api_submit cfg e req w))
        (path_join [''uploads/builds'', to_string (data_packageName (req_body req)) @ ''.apk'']) \<noteq> None"
    by (simp add: handler_defs builds_folder_def split: option.splits)
next
  assume "fs_ok e"
  then show "files (fst (api_submit_part0 cfg e req w))
        (path_join [path_join [cwd cfg, ''uploads'', ''builds''],
                    to_string (data_packageName (req_body req)) @ ''.apk'']) \<noteq> None"
    by (simp add: handler_defs builds_folder_part0_def)
next
  assume "fs_ok e \<and> razorpay_signature b = Str (generated_signature cfg e b)"
  then show "files (fst (api_payment_verify cfg e b w))
        (path_join [''uploads/builds'', to_string (body_packageName b) @ ''.aab'']) \<noteq> None"
    by (auto simp: handler_defs builds_folder_def split: option.splits)
next
  show "path_join [''uploads/builds'', to_string (Str ''../../evil'') @ ''.'' @ ''apk''] = ''evil.apk''"
    by (simp add: path_join_def normalize_def)
  show "\<not> inside_folder ''uploads/builds'' ''evil.apk''"
    by (simp add: inside_folder_def)
  show "path_join [path_join [cwd example_config, ''uploads'', ''builds''],
              to_string (Str ''../../evil'') @ ''.'' @ ''apk''] = ''/srv/app/evil.apk''"
    by (simp add: path_join_def normalize_def example_config_def)
  show "\<not> inside_folder (path_join [cwd example_config, ''uploads'', ''builds'']) ''/srv/app/evil.apk''"
    by (simp add: inside_folder_def path_join_def normalize_def example_config_def)
qed

theorem buildFakeFile_path_not_confined_witness:
  "fs_ok (example_env 5) \<and> db_find_ok (example_env 5) \<and>
   razorpay_signature ((acme_payment (Str ''s3cret#order_A1|pay_B2''))\<lparr>body_packageName := Str ''../../evil''\<rparr>) =
     Str (generated_signature example_config (example_env 5)
            ((acme_payment (Str ''s3cret#order_A1|pay_B2''))\<lparr>body_packageName := Str ''../../evil''\<rparr>)) \<and>
   files (fst (buildFakeFile (example_env 5) acme_world (Str ''../../evil'') ''apk'')) ''evil.apk'' \<noteq> None \<and>
   files (fst (api_submit example_config (example_env 5)
                 (form_request (acme_body\<lparr>data_packageName := Str ''../../evil''\<rparr>)) acme_world))
     ''evil.apk'' \<noteq> None \<and>
   files (fst (api_payment_verify example_config (example_env 5)
                 ((acme_payment (Str ''s3cret#order_A1|pay_B2''))\<lparr>body_packageName := Str ''../../evil''\<rparr>)
                 acme_world))
     ''evil.aab'' \<noteq> None \<and>
   \<not> inside_folder builds_folder ''evil.apk''"
proof -
  let ?req = "form_request (acme_body\<lparr>data_packageName := Str ''../../evil''\<rparr>)"
  let ?b = "(acme_payment (Str ''s3cret#order_A1|pay_B2''))\<lparr>body_packageName := Str ''../../evil''\<rparr>"
  have ok: "fs_ok (example_env 5)" "db_find_ok (example_env 5)"
    by (simp_all add: example_env_def)
  have sg: "razorpay_signature ?b = Str (generated_signature example_config (example_env 5) ?b)"
    by (simp add: acme_payment_def generated_signature_def example_env_def example_config_def)
  have p: "path_join [''uploads/builds'', to_string (Str ''../../evil'') @ ''.'' @ ''apk''] = ''evil.apk''"
    "path_join [''uploads/builds'', to_string (data_packageName (req_body ?req)) @ ''.apk''] = ''evil.apk''"
    "path_join [''uploads/builds'', to_string (body_packageName ?b) @ ''.aab''] = ''evil.aab''"
    by (simp_all add: path_join_def normalize_def form_request_def acme_payment_def)
  note t = buildFakeFile_path_not_confined
             [of "example_env 5" acme_world "Str ''../../evil''" "''apk''" example_config ?req ?b]
  from t ok
  have "files (fst (buildFakeFile (example_env 5) acme_world (Str ''../../evil'') ''apk''))
          (path_join [''uploads/builds'', to_string (Str ''../../evil'') @ ''.'' @ ''apk'']) \<noteq> None"
    and "files (fst (api_submit example_config (example_env 5) ?req acme_world))
          (path_join [''uploads/builds'', to_string (data_packageName (req_body ?req)) @ ''.apk'']) \<noteq> None"
    by blast+
  moreover from t ok sg
  have "files (fst (api_payment_verify example_config (example_env 5) ?b acme_world))
          (path_join [''uploads/builds'', to_string (body_packageName ?b) @ ''.aab'']) \<noteq> None"
    by blast
  moreover from t have "\<not> inside_folder builds_folder ''evil.apk''"
    unfolding builds_folder_def by blast
  ultimately show ?thesis
    using ok sg unfolding p by blast
qed

section \<open>Payment state is never regressed\<close>

lemma api_submit_db:
  "db (fst (api_submit cfg e req w)) = db w \<or>
   (\<exists>j<length (db w). \<exists>icn spl p.
      find_first (\<lambda>r. filter_matches (data_packageName (req_body req)) (packageName r)) (db w) = Some j \<and>
      db (fst (api_submit cfg e req w)) =
        (db w)[j := update_existing e (req_body req) icn spl p (db w ! j)]) \<or>
   (\<exists>icn spl p.
      find_first (\<lambda>r. filter_matches (data_packageName (req_body req)) (packageName r)) (db w) = None \<and>
      new_app_casts e (req_body req) \<and>
      db (fst (api_submit cfg e req w)) = db w @ [new_app e (req_body req) icn spl p])"
proof (cases "find_first (\<lambda>r. filter_matches (data_packageName (req_body req)) (packageName r)) (db w)")
  case None
  then show ?thesis
    by (auto simp: handler_defs)
next
  case (Some j)
  from find_first_Some [OF Some] have "j < length (db w)" by simp
  with Some show ?thesis
    by (auto simp: handler_defs)
qed

lemma api_submit_keeps_documents:
  assumes "i < length (db w)"
  shows "i < length (db (fst (api_submit cfg e req w))) \<and>
         packageName (db (fst (api_submit cfg e req w)) ! i) = packageName (db w ! i) \<and>
         paid (db (fst (api_submit cfg e req w)) ! i) = paid (db w ! i) \<and>
         buildAAB (db (fst (api_submit cfg e req w)) ! i) = buildAAB (db w ! i) \<and>
         createdAt (db (fst (api_submit cfg e req w)) ! i) = createdAt (db w ! i)"
  using api_submit_db [of cfg e req w] assms
  by (auto simp: update_existing_def nth_list_update nth_append split: if_splits)

lemma api_submit_part0_keeps_documents:
  assumes "i < length (db w)"
  shows "i < length (db (fst (api_submit_part0 cfg e req w))) \<and>
         db (fst (api_submit_part0 cfg e req w)) ! i = db w ! i"
  using assms
  by (auto simp: handler_defs nth_append)

lemma findOneAndUpdate_keeps_documents:
  assumes "i < length (db w)"
  shows "i < length (db (fst (findOneAndUpdate e w q p))) \<and>
         packageName (db (fst (findOneAndUpdate e w q p)) ! i) = packageName (db w ! i) \<and>
         createdAt (db (fst (findOneAndUpdate e w q p)) ! i) = createdAt (db w ! i) \<and>
         updatedAt (db (fst (findOneAndUpdate e w q p)) ! i) = updatedAt (db w ! i) \<and>
         (paid (db w ! i) \<longrightarrow> paid (db (fst (findOneAndUpdate e w q p)) ! i))"
  using assms
  by (auto simp: findOneAndUpdate_def Let_def nth_list_update split: option.splits
      dest: find_first_Some)

lemma api_payment_verify_db:
  "db (fst (api_payment_verify cfg e b w)) = db w \<or>
   db (fst (api_payment_verify cfg e b w)) =
     db (fst (findOneAndUpdate e w (body_packageName b)
               (path_join [builds_folder, to_string (body_packageName b) @ ''.aab''])))"
  by (auto simp: handler_defs split: option.splits)

lemma api_payment_verify_part0_db:
  "db (fst (api_payment_verify_part0 cfg e req w)) = db w \<or>
   db (fst (api_payment_verify_part0 cfg e req w)) =
     db (fst (findOneAndUpdate e w (body_packageName (vreq_body req))
               (path_join [builds_folder_part0 cfg, to_string (body_packageName (vreq_body req)) @ ''.aab''])))"
  by (auto simp: handler_defs split: option.splits)

lemma read_only_routes_db:
  "db (fst (api_root w)) = db w"
  "db (fst (api_checkApp e q w)) = db w"
  "db (fst (api_search cfg e q w)) = db w"
  "db (fst (api_payment_order e w)) = db w"
  by (auto simp: handler_defs split: option.splits sum.splits)

lemma handle_keeps_paid:
  assumes "i < length (db w)"
  shows "i < length (db (fst (handle cfg e r w))) \<and>
         packageName (db (fst (handle cfg e r w)) ! i) = packageName (db w ! i) \<and>
         createdAt (db (fst (handle cfg e r w)) ! i) = createdAt (db w ! i) \<and>
         (paid (db w ! i) \<longrightarrow> paid (db (fst (handle cfg e r w)) ! i))"
proof (cases r)
  case (Submit req)
  with api_submit_keeps_documents [OF assms, of cfg e req] show ?thesis by simp
next
  case (PaymentVerify req)
  with api_payment_verify_db [of cfg e "vreq_body req" w]
    findOneAndUpdate_keeps_documents [OF assms] assms
  show ?thesis by auto
qed (use assms in \<open>simp_all add: read_only_routes_db\<close>)

lemma handle_part0_keeps_paid:
  assumes "i < length (db w)"
  shows "i < length (db (fst (handle_part0 cfg e r w))) \<and>
         packageName (db (fst (handle_part0 cfg e r w)) ! i) = packageName (db w ! i) \<and>
         createdAt (db (fst (handle_part0 cfg e r w)) ! i) = createdAt (db w ! i) \<and>
         (paid (db w ! i) \<longrightarrow> paid (db (fst (handle_part0 cfg e r w)) ! i))"
proof (cases r)
  case (Submit req)
  with api_submit_part0_keeps_documents [OF assms, of cfg e req] show ?thesis by simp
next
  case (PaymentVerify req)
  with api_payment_verify_part0_db [of cfg e req w]
    findOneAndUpdate_keeps_documents [OF assms] assms
  show ?thesis by auto
qed (use assms in \<open>simp_all add: read_only_routes_db\<close>)

lemma run_handle_keeps_paid:
  "i < length (db w) \<Longrightarrow> paid (db w ! i) \<Longrightarrow>
   i < length (db (run handle cfg rs w)) \<and>
   packageName (db (run handle cfg rs w) ! i) = packageName (db w ! i) \<and>
   paid (db (run handle cfg rs w) ! i)"
proof (induction rs arbitrary: w)
  case Nil
  then show ?case by simp
next
  case (Cons er rs)
  obtain e r where er: "er = (e, r)" by (cases er)
  from handle_keeps_paid [OF Cons.prems(1), of cfg e r] Cons.prems(2)
  have step: "i < length (db (fst (handle cfg e r w)))"
    "packageName (db (fst (handle cfg e r w)) ! i) = packageName (db w ! i)"
    "paid (db (fst (handle cfg e r w)) ! i)"
    by simp_all
  from Cons.IH [OF step(1) step(3)] step(2) er show ?case by simp
qed

lemma run_handle_part0_keeps_paid:
  "i < length (db w) \<Longrightarrow> paid (db w ! i) \<Longrightarrow>
   i < length (db (run handle_part0 cfg rs w)) \<and>
   packageName (db (run handle_part0 cfg rs w) ! i) = packageName (db w ! i) \<and>
   paid (db (run handle_part0 cfg rs w) ! i)"
proof (induction rs arbitrary: w)
  case Nil
  then show ?case by simp
next
  case (Cons er rs)
  obtain e r where er: "er = (e, r)" by (cases er)
  from handle_part0_keeps_paid [OF Cons.prems(1), of cfg e r] Cons.prems(2)
  have step: "i < length (db (fst (handle_part0 cfg e r w)))"
    "packageName (db (fst (handle_part0 cfg e r w)) ! i) = packageName (db w ! i)"
    "paid (db (fst (handle_part0 cfg e r w)) ! i)"
    by simp_all
  from Cons.IH [OF step(1) step(3)] step(2) er show ?case by simp
qed

text \<open>
  Claim C6. A submit call leaves \<open>paid\<close> and \<open>buildAAB\<close> of every stored document as
  they were, whatever package it names (in the second file it only adds a document). And
  a document that is paid stays paid, under its package name, through every sequence of
  requests served by either server.
\<close>

theorem submit_keeps_paid_and_paid_is_monotonic:
  "(i < length (db w) \<longrightarrow>
      i < length (db (fst (api_submit cfg e req w))) \<and>
      packageName (db (fst (api_submit cfg e req w)) ! i) = packageName (db w ! i) \<and>
      paid (db (fst (api_submit cfg e req w)) ! i) = paid (db w ! i) \<and>
      buildAAB (db (fst (api_submit cfg e req w)) ! i) = buildAAB (db w ! i) \<and>
      i < length (db (fst (api_submit_part0 cfg e req w))) \<and>
      packageName (db (fst (api_submit_part0 cfg e req w)) ! i) = packageName (db w ! i) \<and>
      paid (db (fst (api_submit_part0 cfg e req w)) ! i) = paid (db w ! i) \<and>
      buildAAB (db (fst (api_submit_part0 cfg e req w)) ! i) = buildAAB (db w ! i)) \<and>
   (i < length (db w) \<and> paid (db w ! i) \<longrightarrow>
      i < length (db (run handle cfg rs w)) \<and>
      packageName (db (run handle cfg rs w) ! i) = packageName (db w ! i) \<and>
      paid (db (run handle cfg rs w) ! i) \<and>
      i < length (db (run handle_part0 cfg rs w)) \<and>
      packageName (db (run handle_part0 cfg rs w) ! i) = packageName (db w ! i) \<and>
      paid (db (run handle_part0 cfg rs w) ! i))"
  using api_submit_keeps_documents [of i w cfg e req]
    api_submit_part0_keeps_documents [of i w cfg e req]
    run_handle_keeps_paid [of i w cfg rs] run_handle_part0_keeps_paid [of i w cfg rs]
  by simp

lemma acme_paid_world_db:
  "db acme_paid_world =
     [(new_app (example_env 5) acme_body (Str []) (Str []) ''uploads/builds/com.acme.app.apk'')
        \<lparr>paid := True, buildAAB := Str ''uploads/builds/com.acme.app.aab''\<rparr>]"
  by (simp add: acme_paid_world_def acme_world_db handler_defs value_defs path_defs
      acme_payment_def example_config_def example_env_def acme_body_def)

theorem submit_keeps_paid_and_paid_is_monotonic_witness:
  "0 < length (db acme_paid_world) \<and> paid (db acme_paid_world ! 0) \<and>
   paid (db (fst (api_submit example_config (example_env 11) (form_request acme_body) acme_paid_world)) ! 0) \<and>
   buildAAB (db (fst (api_submit example_config (example_env 11) (form_request acme_body) acme_paid_world)) ! 0)
     = Str ''uploads/builds/com.acme.app.aab'' \<and>
   paid (db (run handle example_config
               [(example_env 11, Submit (form_request acme_body)),
                (example_env 12, PaymentVerify (json_request (acme_payment (Str ''forged''))))]
               acme_paid_world) ! 0)"
proof -
  have h: "0 < length (db acme_paid_world) \<and> paid (db acme_paid_world ! 0)"
    and a: "buildAAB (db acme_paid_world ! 0) = Str ''uploads/builds/com.acme.app.aab''"
    by (simp_all add: acme_paid_world_db)
  from h a submit_keeps_paid_and_paid_is_monotonic
         [of 0 acme_paid_world example_config "example_env 11" "form_request acme_body"
             "[(example_env 11, Submit (form_request acme_body)),
               (example_env 12, PaymentVerify (json_request (acme_payment (Str ''forged''))))]"]
  show ?thesis by simp
qed

section \<open>Submitting a package twice\<close>

lemma api_submit_create_db:
  assumes "find_first (\<lambda>r. filter_matches (data_packageName (req_body req)) (packageName r)) (db w) = None"
    and "fs_ok e" "db_find_ok e" "db_save_ok e" "new_app_casts e (req_body req)"
  shows "db (fst (api_submit cfg e req w)) =
           db w @ [new_app e (req_body req) (upload_path (file_icon req)) (upload_path (file_splash req))
                     (path_join [builds_folder, to_string (data_packageName (req_body req)) @ ''.apk''])]"
  using assms by (simp add: handler_defs)

lemma api_submit_update_db:
  assumes "find_first (\<lambda>r. filter_matches (data_packageName (req_body req)) (packageName r)) (db w) = Some j"
    and "fs_ok e" "db_find_ok e" "db_save_ok e" "update_casts e (req_body req)"
  shows "db (fst (api_submit cfg e req w)) =
           (db w)[j := update_existing e (req_body req) (upload_path (file_icon req))
                         (upload_path (file_splash req))
                         (path_join [builds_folder, to_string (data_packageName (req_body req)) @ ''.apk''])
                         (db w ! j)]"
  using assms by (simp add: handler_defs)

lemma api_submit_part0_db:
  assumes "fs_ok e" "db_save_ok e" "new_app_casts e (req_body req)"
  shows "db (fst (api_submit_part0 cfg e req w)) =
           db w @ [new_app e (req_body req) (upload_path (file_icon req)) (upload_path (file_splash req))
                     (path_join [builds_folder_part0 cfg, to_string (data_packageName (req_body req)) @ ''.apk''])]"
  using assms by (simp add: handler_defs)

lemma filter_none: "find_first P xs = None \<Longrightarrow> filter P xs = []"
  by (simp add: find_first_None filter_empty_conv)



subsection \<open>Package names stay unique on server.js\<close>



lemma update_existing_packageName [simp]:
  "packageName (update_existing e d icn spl p r) = packageName r"
  by (simp add: update_existing_def)

lemma new_app_packageName [simp]: "packageName (new_app e d icn spl p) = data_packageName d"
  by (simp add: new_app_def)












section \<open>Submissions without a package name or a contact address\<close>

lemma api_submit_files:
  assumes "fs_ok e" "db_find_ok e"
  shows "files (fst (api_submit cfg e req w))
           (path_join [builds_folder, to_string (data_packageName (req_body req)) @ ''.apk'']) \<noteq> None"
  using assms by (simp add: handler_defs split: option.splits)

lemma api_submit_part0_files:
  assumes "fs_ok e"
  shows "files (fst (api_submit_part0 cfg e req w))
           (path_join [builds_folder_part0 cfg, to_string (data_packageName (req_body req)) @ ''.apk'']) \<noteq> None"
  using assms by (simp add: handler_defs)

lemma api_submit_stores:
  assumes "fs_ok e" "db_find_ok e" "db_save_ok e" "new_app_casts e (req_body req)"
  shows "\<exists>r\<in>set (db (fst (api_submit cfg e req w))).
           filter_matches (data_packageName (req_body req)) (packageName r) \<and>
           buildFile r = Str (path_join [builds_folder, to_string (data_packageName (req_body req)) @ ''.apk''])"
proof (cases "find_first (\<lambda>r. filter_matches (data_packageName (req_body req)) (packageName r)) (db w)")
  case None
  from assms(4) have "castable_string (data_packageName (req_body req))"
    by (simp add: new_app_casts_def)
  with api_submit_create_db [OF None assms, of cfg] show ?thesis
    by (simp add: new_app_def filter_matches_refl)
next
  case (Some j)
  from find_first_Some [OF Some]
  have j: "j < length (db w)" and m: "filter_matches (data_packageName (req_body req)) (packageName (db w ! j))"
    by simp_all
  let ?u = "update_existing e (req_body req) (upload_path (file_icon req)) (upload_path (file_splash req))
              (path_join [builds_folder, to_string (data_packageName (req_body req)) @ ''.apk'']) (db w ! j)"
  from api_submit_update_db [OF Some assms(1-3) new_app_casts_update [OF assms(4)], of cfg] j
  have "?u \<in> set (db (fst (api_submit cfg e req w)))"
    by (simp add: set_update_memI)
  moreover from m have "filter_matches (data_packageName (req_body req)) (packageName ?u)"
    by (simp add: update_existing_def)
  moreover have "buildFile ?u = Str (path_join [builds_folder, to_string (data_packageName (req_body req)) @ ''.apk''])"
    by (simp add: update_existing_def)
  ultimately show ?thesis by blast
qed

lemma api_submit_ok_status:
  assumes "fs_ok e" "db_find_ok e" "db_save_ok e" "new_app_casts e (req_body req)" "mail_ok e"
  shows "status (snd (api_submit cfg e req w)) = 200"
  using assms new_app_casts_update [OF assms(4)]
  by (simp add: handler_defs split: option.splits)

lemma api_submit_part0_ok_status:
  assumes "fs_ok e" "db_save_ok e" "new_app_casts e (req_body req)"
  shows "status (snd (api_submit_part0 cfg e req w)) = 200"
  using assms by (simp add: handler_defs)

text \<open>
  Claim C3, as amended. Neither submit handler checks \<open>packageName\<close> or
  \<open>contactEmail\<close>, so a submit call that lacks a non-empty \<open>packageName\<close> or a
  non-empty \<open>contactEmail\<close> is not rejected for it before the writes. For every such
  call: when the file system accepts the write (and, on server.js, the lookup succeeds),
  the stub APK is written at the builds folder joined with
  \<open>String(packageName) + ".apk"\<close>; when, besides, the database save succeeds and the
  call's values can be cast to the schema, a document pointing to that file is stored
  (server.js: a document of the package, created or updated; second file: a new document
  with the submitted \<open>packageName\<close> and \<open>contactEmail\<close>) and the handler answers 200
  (on server.js provided the mail is accepted).
\<close>

theorem submit_is_not_validated:
  assumes "\<not> truthy (data_packageName (req_body req)) \<or> \<not> truthy (data_contactEmail (req_body req))"
  shows
  "(fs_ok e \<and> db_find_ok e \<longrightarrow>
      files (fst (api_submit cfg e req w))
        (path_join [builds_folder, to_string (data_packageName (req_body req)) @ ''.apk'']) \<noteq> None) \<and>
   (fs_ok e \<longrightarrow>
      files (fst (api_submit_part0 cfg e req w))
        (path_join [builds_folder_part0 cfg, to_string (data_packageName (req_body req)) @ ''.apk'']) \<noteq> None) \<and>
   (fs_ok e \<and> db_find_ok e \<and> db_save_ok e \<and> new_app_casts e (req_body req) \<longrightarrow>
      (\<exists>r\<in>set (db (fst (api_submit cfg e req w))).
         filter_matches (data_packageName (req_body req)) (packageName r) \<and>
         buildFile r = Str (path_join [builds_folder, to_string (data_packageName (req_body req)) @ ''.apk''])) \<and>
      (mail_ok e \<longrightarrow> status (snd (api_submit cfg e req w)) = 200)) \<and>
   (fs_ok e \<and> db_save_ok e \<and> new_app_casts e (req_body req) \<longrightarrow>
      length (db (fst (api_submit_part0 cfg e req w))) = Suc (length (db w)) \<and>
      packageName (last (db (fst (api_submit_part0 cfg e req w)))) = data_packageName (req_body req) \<and>
      contactEmail (last (db (fst (api_submit_part0 cfg e req w)))) = data_contactEmail (req_body req) \<and>
      buildFile (last (db (fst (api_submit_part0 cfg e req w)))) =
        Str (path_join [builds_folder_part0 cfg, to_string (data_packageName (req_body req)) @ ''.apk'']) \<and>
      status (snd (api_submit_part0 cfg e req w)) = 200)"
  using api_submit_files [where e = e and cfg = cfg and req = req and w = w]
    api_submit_stores [where e = e and cfg = cfg and req = req and w = w]
    api_submit_ok_status [where e = e and cfg = cfg and req = req and w = w]
    api_submit_part0_files [where e = e and cfg = cfg and req = req and w = w]
    api_submit_part0_db [where e = e and cfg = cfg and req = req and w = w]
    api_submit_part0_ok_status [where e = e and cfg = cfg and req = req and w = w]
  by (simp add: new_app_def)

theorem submit_is_not_validated_witness:
  "\<not> truthy (data_packageName (req_body (form_request (acme_body\<lparr>data_packageName := Undefined\<rparr>)))) \<and>
   (fs_ok (example_env 5) \<and> db_find_ok (example_env 5) \<and> db_save_ok (example_env 5) \<and>
    new_app_casts (example_env 5) (req_body (form_request (acme_body\<lparr>data_packageName := Undefined\<rparr>))) \<and>
    mail_ok (example_env 5)) \<and>
   files (fst (api_submit example_config (example_env 5)
                 (form_request (acme_body\<lparr>data_packageName := Undefined\<rparr>)) empty_world))
     ''uploads/builds/undefined.apk'' \<noteq> None \<and>
   (\<exists>r\<in>set (db (fst (api_submit example_config (example_env 5)
                 (form_request (acme_body\<lparr>data_packageName := Undefined\<rparr>)) empty_world))).
      buildFile r = Str ''uploads/builds/undefined.apk'') \<and>
   status (snd (api_submit example_config (example_env 5)
                 (form_request (acme_body\<lparr>data_packageName := Undefined\<rparr>)) empty_world)) = 200 \<and>
   packageName (last (db (fst (api_submit_part0 example_config (example_env 5)
                 (form_request (acme_body\<lparr>data_packageName := Undefined\<rparr>)) empty_world)))) = Undefined \<and>
   status (snd (api_submit_part0 example_config (example_env 5)
                 (form_request (acme_body\<lparr>data_packageName := Undefined\<rparr>)) empty_world)) = 200"
proof -
  let ?req = "form_request (acme_body\<lparr>data_packageName := Undefined\<rparr>)"
  have pk: "data_packageName (req_body ?req) = Undefined"
    by (simp add: form_request_def)
  have no_name: "\<not> truthy (data_packageName (req_body ?req))"
    unfolding pk by simp
  then have lacks: "\<not> truthy (data_packageName (req_body ?req)) \<or> \<not> truthy (data_contactEmail (req_body ?req))"
    by (rule disjI1)
  have ok: "fs_ok (example_env 5) \<and> db_find_ok (example_env 5) \<and> db_save_ok (example_env 5) \<and>
    new_app_casts (example_env 5) (req_body ?req) \<and> mail_ok (example_env 5)"
    by (simp add: example_env_def form_request_def acme_body_def new_app_casts_def
        castable_string_def castNumber_def decimal_number_def)
  have p2: "path_join [builds_folder, to_string Undefined @ ''.apk''] = ''uploads/builds/undefined.apk''"
    by (simp add: path_defs)
  note t = submit_is_not_validated [OF lacks, where e = "example_env 5" and cfg = example_config
             and w = empty_world]
  from t ok
  have "files (fst (api_submit example_config (example_env 5) ?req empty_world))
          (path_join [builds_folder, to_string (data_packageName (req_body ?req)) @ ''.apk'']) \<noteq> None"
    and "\<exists>r\<in>set (db (fst (api_submit example_config (example_env 5) ?req empty_world))).
           buildFile r = Str (path_join [builds_folder, to_string (data_packageName (req_body ?req)) @ ''.apk''])"
    and "status (snd (api_submit example_config (example_env 5) ?req empty_world)) = 200"
    and "packageName (last (db (fst (api_submit_part0 example_config (example_env 5) ?req empty_world))))
           = data_packageName (req_body ?req)"
    and "status (snd (api_submit_part0 example_config (example_env 5) ?req empty_world)) = 200"
    by blast+
  then have "files (fst (api_submit example_config (example_env 5) ?req empty_world))
          ''uploads/builds/undefined.apk'' \<noteq> None"
    and "\<exists>r\<in>set (db (fst (api_submit example_config (example_env 5) ?req empty_world))).
           buildFile r = Str ''uploads/builds/undefined.apk''"
    and "status (snd (api_submit example_config (example_env 5) ?req empty_world)) = 200"
    and "packageName (last (db (fst (api_submit_part0 example_config (example_env 5) ?req empty_world))))
           = Undefined"
    and "status (snd (api_submit_part0 example_config (example_env 5) ?req empty_world)) = 200"
    unfolding pk p2 by blast+
  with no_name ok show ?thesis by blast
qed

text \<open>
  Claim C3 as it stands fails. A submission without a package name is answered 200 by
  both servers after the stub \<open>undefined.apk\<close> and a document have been written. A
  submission with an empty contact address, whose mail the transport refuses, is answered
  200 by the second file and 500 by server.js, in both cases after the file and the
  document have been written.
\<close>

theorem submit_without_required_fields_counterexample:
  "status (snd (api_submit example_config (example_env 5)
            (form_request (acme_body\<lparr>data_packageName := Undefined\<rparr>)) empty_world)) = 200 \<and>
   length (db (fst (api_submit example_config (example_env 5)
            (form_request (acme_body\<lparr>data_packageName := Undefined\<rparr>)) empty_world))) = 1 \<and>
   files (fst (api_submit example_config (example_env 5)
            (form_request (acme_body\<lparr>data_packageName := Undefined\<rparr>)) empty_world))
     ''uploads/builds/undefined.apk'' \<noteq> None \<and>
   status (snd (api_submit_part0 example_config (example_env 5)
            (form_request (acme_body\<lparr>data_packageName := Undefined\<rparr>)) empty_world)) = 200 \<and>
   length (db (fst (api_submit_part0 example_config (example_env 5)
            (form_request (acme_body\<lparr>data_packageName := Undefined\<rparr>)) empty_world))) = 1 \<and>
   files (fst (api_submit_part0 example_config (example_env 5)
            (form_request (acme_body\<lparr>data_packageName := Undefined\<rparr>)) empty_world))
     ''/srv/app/uploads/builds/undefined.apk'' \<noteq> None \<and>
   status (snd (api_submit_part0 example_config ((example_env 5)\<lparr>mail_ok := False\<rparr>)
            (form_request (acme_body\<lparr>data_contactEmail := Str []\<rparr>)) empty_world)) = 200 \<and>
   length (db (fst (api_submit_part0 example_config ((example_env 5)\<lparr>mail_ok := False\<rparr>)
            (form_request (acme_body\<lparr>data_contactEmail := Str []\<rparr>)) empty_world))) = 1 \<and>
   status (snd (api_submit example_config ((example_env 5)\<lparr>mail_ok := False\<rparr>)
            (form_request (acme_body\<lparr>data_contactEmail := Str []\<rparr>)) empty_world)) = 500 \<and>
   length (db (fst (api_submit example_config ((example_env 5)\<lparr>mail_ok := False\<rparr>)
            (form_request (acme_body\<lparr>data_contactEmail := Str []\<rparr>)) empty_world))) = 1 \<and>
   files (fst (api_submit example_config ((example_env 5)\<lparr>mail_ok := False\<rparr>)
            (form_request (acme_body\<lparr>data_contactEmail := Str []\<rparr>)) empty_world))
     ''uploads/builds/com.acme.app.apk'' \<noteq> None"
  by (simp add: handler_defs value_defs path_defs example_defs)

section \<open>Evaluations where the servers depart from the specification\<close>

text \<open>
  The three departures evaluated below do not depend on the example inputs: the lemmas of
  this section state them for every request.
\<close>

lemma verify_unknown_package_is_500:
  assumes "razorpay_signature b = Str (generated_signature cfg e b)"
    and "find_first (\<lambda>r. filter_matches (body_packageName b) (packageName r)) (db w) = None"
  shows "snd (api_payment_verify cfg e b w) = \<lparr>status = 500, body = Failure ''Verification failed''\<rparr>"
    and "db (fst (api_payment_verify cfg e b w)) = db w"
    and "snd (api_payment_verify_part0 cfg e \<lparr>vreq_body = b, vreq_protocol = pr, vreq_host = h\<rparr> w) =
           \<lparr>status = 500, body = Failure ''Verification failed''\<rparr>"
    and "db (fst (api_payment_verify_part0 cfg e \<lparr>vreq_body = b, vreq_protocol = pr, vreq_host = h\<rparr> w)) = db w"
  using assms by (simp_all add: handler_defs)

lemma submit_mail_failure_is_500:
  assumes "fs_ok e" "db_find_ok e" "db_save_ok e" "\<not> mail_ok e"
  shows "snd (api_submit cfg e req w) = \<lparr>status = 500, body = Failure ''Failed to save app''\<rparr>"
  using assms by (simp add: handler_defs split: option.splits)

lemma submit_part0_mail_failure_is_200:
  assumes "fs_ok e" "db_save_ok e" "new_app_casts e (req_body req)" "\<not> mail_ok e"
  shows "status (snd (api_submit_part0 cfg e req w)) = 200"
    and "logs (fst (api_submit_part0 cfg e req w)) = logs w @ [EmailSendError]"
  using assms by (simp_all add: handler_defs)

lemma verify_keeps_updatedAt:
  assumes "i < length (db w)"
  shows "updatedAt (db (fst (api_payment_verify cfg e b w)) ! i) = updatedAt (db w ! i)"
    and "updatedAt (db (fst (api_payment_verify_part0 cfg e req w)) ! i) = updatedAt (db w ! i)"
  using api_payment_verify_db [of cfg e b w] api_payment_verify_part0_db [of cfg e req w]
    findOneAndUpdate_keeps_documents [OF assms]
  by auto

lemma run_keeps_createdAt:
  "i < length (db w) \<Longrightarrow>
   i < length (db (run handle cfg rs w)) \<and> createdAt (db (run handle cfg rs w) ! i) = createdAt (db w ! i)"
proof (induction rs arbitrary: w)
  case Nil
  then show ?case by simp
next
  case (Cons er rs)
  obtain e r where er: "er = (e, r)" by (cases er)
  from handle_keeps_paid [OF Cons.prems, of cfg e r]
  have step: "i < length (db (fst (handle cfg e r w)))"
    "createdAt (db (fst (handle cfg e r w)) ! i) = createdAt (db w ! i)"
    by simp_all
  from Cons.IH [OF step(1)] step(2) er show ?case by simp
qed

lemma run_part0_keeps_createdAt:
  "i < length (db w) \<Longrightarrow>
   i < length (db (run handle_part0 cfg rs w)) \<and>
   createdAt (db (run handle_part0 cfg rs w) ! i) = createdAt (db w ! i)"
proof (induction rs arbitrary: w)
  case Nil
  then show ?case by simp
next
  case (Cons er rs)
  obtain e r where er: "er = (e, r)" by (cases er)
  from handle_part0_keeps_paid [OF Cons.prems, of cfg e r]
  have step: "i < length (db (fst (handle_part0 cfg e r w)))"
    "createdAt (db (fst (handle_part0 cfg e r w)) ! i) = createdAt (db w ! i)"
    by simp_all
  from Cons.IH [OF step(1)] step(2) er show ?case by simp
qed

text \<open>
  Claim C4. A verify call with the correct signature for a package that was never
  submitted: \<open>findOneAndUpdate\<close> yields \<open>null\<close>, reading \<open>updated.contactEmail\<close>
  throws, and the handler answers 500 "Verification failed" after the stub AAB has been
  written. No document is created. Both files behave so.
\<close>

theorem verify_unknown_package_evaluation:
  "snd (api_payment_verify example_config (example_env 9)
          (acme_payment (Str ''s3cret#order_A1|pay_B2'')) empty_world) =
     \<lparr>status = 500, body = Failure ''Verification failed''\<rparr> \<and>
   db (fst (api_payment_verify example_config (example_env 9)
          (acme_payment (Str ''s3cret#order_A1|pay_B2'')) empty_world)) = [] \<and>
   logs (fst (api_payment_verify example_config (example_env 9)
          (acme_payment (Str ''s3cret#order_A1|pay_B2'')) empty_world)) = [VerifyErrorLog TypeError] \<and>
   files (fst (api_payment_verify example_config (example_env 9)
          (acme_payment (Str ''s3cret#order_A1|pay_B2'')) empty_world))
     ''uploads/builds/com.acme.app.aab'' \<noteq> None \<and>
   snd (api_payment_verify_part0 example_config (example_env 9)
          (json_request (acme_payment (Str ''s3cret#order_A1|pay_B2''))) empty_world) =
     \<lparr>status = 500, body = Failure ''Verification failed''\<rparr> \<and>
   db (fst (api_payment_verify_part0 example_config (example_env 9)
          (json_request (acme_payment (Str ''s3cret#order_A1|pay_B2''))) empty_world)) = [] \<and>
   files (fst (api_payment_verify_part0 example_config (example_env 9)
          (json_request (acme_payment (Str ''s3cret#order_A1|pay_B2''))) empty_world))
     ''/srv/app/uploads/builds/com.acme.app.aab'' \<noteq> None"
  by (simp add: handler_defs value_defs path_defs example_defs)

text \<open>
  Claim C5. The example submission when the mail transport refuses the mail. In server.js
  \<open>sendEmail\<close> lets the error through, so the handler answers 500 "Failed to save app"
  although the document and the stub APK have been stored. The second file's
  \<open>sendEmail\<close> catches and logs the error, and its handler answers 200.
\<close>

theorem submit_mail_failure_evaluation:
  "snd (api_submit example_config ((example_env 5)\<lparr>mail_ok := False\<rparr>)
          (form_request acme_body) empty_world) =
     \<lparr>status = 500, body = Failure ''Failed to save app''\<rparr> \<and>
   map packageName (db (fst (api_submit example_config ((example_env 5)\<lparr>mail_ok := False\<rparr>)
          (form_request acme_body) empty_world))) = [Str ''com.acme.app''] \<and>
   files (fst (api_submit example_config ((example_env 5)\<lparr>mail_ok := False\<rparr>)
          (form_request acme_body) empty_world)) ''uploads/builds/com.acme.app.apk'' \<noteq> None \<and>
   logs (fst (api_submit example_config ((example_env 5)\<lparr>mail_ok := False\<rparr>)
          (form_request acme_body) empty_world)) = [SubmitErrorLog MailError] \<and>
   status (snd (api_submit example_config ((example_env 7)\<lparr>mail_ok := False\<rparr>)
          (form_request acme_resubmission) acme_world)) = 500 \<and>
   map updatedAt (db (fst (api_submit example_config ((example_env 7)\<lparr>mail_ok := False\<rparr>)
          (form_request acme_resubmission) acme_world))) = [Some 7] \<and>
   status (snd (api_submit_part0 example_config ((example_env 5)\<lparr>mail_ok := False\<rparr>)
          (form_request acme_body) empty_world)) = 200 \<and>
   logs (fst (api_submit_part0 example_config ((example_env 5)\<lparr>mail_ok := False\<rparr>)
          (form_request acme_body) empty_world)) = [EmailSendError]"
  by (simp add: acme_world_def handler_defs value_defs path_defs example_defs)

text \<open>
  Claim C9. The example package is submitted at time 5, resubmitted at time 7 and paid for
  at time 9 on server.js. The resubmission sets \<open>updatedAt\<close> to 7; the verify call sets
  \<open>paid\<close> and \<open>buildAAB\<close> and leaves \<open>updatedAt\<close> at 7. On the second file, which
  never assigns \<open>updatedAt\<close>, the document is paid with \<open>updatedAt\<close> unset.
  \<open>createdAt\<close> stays 5 throughout.
\<close>

theorem verify_leaves_updatedAt_evaluation:
  "map updatedAt (db (run handle example_config
        [(example_env 5, Submit (form_request acme_body)),
         (example_env 7, Submit (form_request acme_resubmission))] empty_world)) = [Some 7] \<and>
   map paid (db (run handle example_config
        [(example_env 5, Submit (form_request acme_body)),
         (example_env 7, Submit (form_request acme_resubmission)),
         (example_env 9, PaymentVerify (json_request (acme_payment (Str ''s3cret#order_A1|pay_B2''))))]
        empty_world)) = [True] \<and>
   map buildAAB (db (run handle example_config
        [(example_env 5, Submit (form_request acme_body)),
         (example_env 7, Submit (form_request acme_resubmission)),
         (example_env 9, PaymentVerify (json_request (acme_payment (Str ''s3cret#order_A1|pay_B2''))))]
        empty_world)) = [Str ''uploads/builds/com.acme.app.aab''] \<and>
   map updatedAt (db (run handle example_config
        [(example_env 5, Submit (form_request acme_body)),
         (example_env 7, Submit (form_request acme_resubmission)),
         (example_env 9, PaymentVerify (json_request (acme_payment (Str ''s3cret#order_A1|pay_B2''))))]
        empty_world)) = [Some 7] \<and>
   map createdAt (db (run handle example_config
        [(example_env 5, Submit (form_request acme_body)),
         (example_env 7, Submit (form_request acme_resubmission)),
         (example_env 9, PaymentVerify (json_request (acme_payment (Str ''s3cret#order_A1|pay_B2''))))]
        empty_world)) = [5] \<and>
   map paid (db (run handle_part0 example_config
        [(example_env 5, Submit (form_request acme_body)),
         (example_env 9, PaymentVerify (json_request (acme_payment (Str ''s3cret#order_A1|pay_B2''))))]
        empty_world)) = [True] \<and>
   map updatedAt (db (run handle_part0 example_config
        [(example_env 5, Submit (form_request acme_body)),
         (example_env 9, PaymentVerify (json_request (acme_payment (Str ''s3cret#order_A1|pay_B2''))))]
        empty_world)) = [None]"
  by (simp add: handler_defs value_defs path_defs example_defs)

end
